theory Spec2Isabelle
  imports Complex_Main "HOL-Library.AList"
begin

section \<open>Python values and exceptions\<close>

text \<open>
  Every exception the modelled code can raise is a value of \<open>error\<close>; a call that may
  raise returns \<open>error + 'a\<close>, with \<open>Inl\<close> for the raised exception.  A method that also
  mutates an object returns the object's state after the call beside the outcome, so that
  the state left behind by a raise is part of the model.
\<close>

datatype error =
    AssertionError string
  | ValueError string
  | TypeError string
  | KeyError string
  | IndexError string
  | AttributeError string
  | NameError string
  | UnboundLocalError string
  | NotImplementedError
  | ExternalError string

text \<open>
  The values that cross the worker's interface.  \<open>PyUndefined\<close> is the sentinel
  \<^verbatim>\<open>pyomo.opt.undefined\<close>; \<open>PyAsyncResult r\<close> is \<^verbatim>\<open>self.AsyncResult(None, result=r)\<close>.
  A Python dict is an association list in insertion order.
\<close>

datatype pyval =
    PyNone
  | PyUndefined
  | PyBool bool
  | PyInt int
  | PyNum rat
  | PyStr string
  | PyList "pyval list"
  | PyDict "(pyval \<times> pyval) list"
  | PyAsyncResult pyval

type_synonym kwds = "(string \<times> pyval) list"

section \<open>spsolver.py\<close>

subsection \<open>Solver options and results\<close>

text \<open>
  \<^verbatim>\<open>pyutilib.misc.Options\<close> is a dict with attribute access: an association list from
  option names to values.  \<open>set_items dst src\<close> is the loop
  \<^verbatim>\<open>for key, val in src.items(): dst[key] = val\<close>.
\<close>

type_synonym solver_opts = "(string \<times> pyval) list"

fun set_items :: "solver_opts \<Rightarrow> solver_opts \<Rightarrow> solver_opts" where
  "set_items dst [] = dst"
| "set_items dst ((key, val) # rest) = set_items (AList.update key val dst) rest"

text \<open>
  \<^verbatim>\<open>SPSolverResults\<close>: the five attributes of \<^verbatim>\<open>__init__\<close>, and the two that \<^verbatim>\<open>solve\<close>
  and the strategies attach later (\<open>None\<close> while the attribute does not exist).
  \<open>xhat\<close> maps a tree object's name to the mapping from variable identifiers to values.
\<close>

type_synonym xhat_map = "(string \<times> (string \<times> pyval) list) list"

record SPSolverResults =
  objective :: pyval
  bound :: pyval
  solver_name :: pyval
  solver_time :: pyval
  solver_status :: pyval
  pysp_time :: "rat option"
  xhat :: "xhat_map option"

definition new_SPSolverResults :: SPSolverResults where
  "new_SPSolverResults =
     \<lparr>objective = PyUndefined, bound = PyUndefined, solver_name = PyUndefined,
      solver_time = PyUndefined, solver_status = PyUndefined,
      pysp_time = None, xhat = None\<rparr>"

text \<open>
  The state of an \<^verbatim>\<open>SPSolver\<close>: \<^verbatim>\<open>self._name\<close> and \<^verbatim>\<open>self._solver_options\<close>.  The
  property \<^verbatim>\<open>options\<close> reads the second.
\<close>

record SPSolver =
  sp_name :: pyval
  solver_options :: solver_opts

definition new_SPSolver :: SPSolver where
  "new_SPSolver = \<lparr>sp_name = PyNone, solver_options = []\<rparr>"

subsection \<open>The problem handed to solve\<close>

text \<open>
  Modelled from the spec: the scenario tree is an external collaborator of these files
  (its module is not among the sources); the model keeps what section 3 of the
  specification says of it and what the two source files read.  Stages are an ordered
  list, each stage owns its nodes, a node has a name, the name of its parent (none for
  the root) and its variable identities; a scenario has a name, a probability, an
  objective sense and the names of the nodes on its path from the root to its leaf;
  a bundle is a name with the scenarios it merges; the instance factory holds, for a
  scenario name, the model instance it constructs (of which the worker reads the
  objective sense it declares).
\<close>

datatype sense = minimize | maximize

record tree_node =
  node_name :: string
  parent_name :: "string option"
  standard_variable_ids :: "string list"
  discrete_variable_ids :: "string list"

record stage =
  stage_name :: string
  nodes :: "tree_node list"

record scenario =
  scenario_name :: string
  probability :: rat
  scenario_objective_sense :: "sense option"
  node_path :: "string list"

record scenario_instance =
  declared_sense :: sense

record scenario_tree =
  stages :: "stage list"
  scenarios :: "scenario list"
  scenario_bundles :: "(string \<times> string list) list"
  scenario_instance_factory :: "(string \<times> scenario_instance) list"

text \<open>
  Modelled from the spec: \<^verbatim>\<open>tree_node.is_variable_discrete(id_)\<close> is missing from the
  sources; it is membership in the node's discrete partition.
\<close>

definition is_variable_discrete :: "tree_node \<Rightarrow> string \<Rightarrow> bool" where
  "is_variable_discrete tree_node vid = (vid \<in> set (discrete_variable_ids tree_node))"

text \<open>
  Modelled from the spec: the class \<^verbatim>\<open>EmbeddedSP\<close> is missing from the sources; \<^verbatim>\<open>solve\<close>
  reads its time stages and, for each stage, the pairs \<^verbatim>\<open>(var, derived)\<close>, and of \<^verbatim>\<open>var\<close>
  only \<^verbatim>\<open>is_continuous()\<close>.  Any other problem is a scenario-tree-based one.
\<close>

datatype sp =
    EmbeddedSP "string list" "(string \<times> (bool \<times> bool) list) list"
  | TreeSP scenario_tree

text \<open>
  The statistics of lines 89 to 112: scenario count (\<open>None\<close> for \<^verbatim>\<open>"<unknown>"\<close>), stage
  count, and the non-anticipative variables, all and continuous.  The slice
  \<^verbatim>\<open>xs[:-1]\<close> is \<open>butlast\<close>.
\<close>

fun count_embedded_stage :: "(bool \<times> bool) list \<Rightarrow> nat \<times> nat \<Rightarrow> nat \<times> nat" where
  "count_embedded_stage [] acc = acc"
| "count_embedded_stage ((is_continuous, derived) # rest) (na, nac) =
     count_embedded_stage rest
       (if \<not> derived then (na + 1, if is_continuous then nac + 1 else nac) else (na, nac))"

fun count_embedded ::
  "(string \<times> (bool \<times> bool) list) list \<Rightarrow> string list \<Rightarrow> nat \<times> nat \<Rightarrow> error + nat \<times> nat" where
  "count_embedded m [] acc = Inr acc"
| "count_embedded m (stage # rest) acc =
     (case map_of m stage of
        None \<Rightarrow> Inl (KeyError stage)
      | Some vars \<Rightarrow> count_embedded m rest (count_embedded_stage vars acc))"

fun count_tree_node :: "tree_node \<Rightarrow> nat \<times> nat \<Rightarrow> nat \<times> nat" where
  "count_tree_node tree_node (na, nac) =
     (na + length (standard_variable_ids tree_node),
      nac + length (filter (\<lambda>vid. \<not> is_variable_discrete tree_node vid)
                      (standard_variable_ids tree_node)))"

definition count_tree :: "stage list \<Rightarrow> nat \<times> nat" where
  "count_tree sts = fold count_tree_node (concat (map nodes sts)) (0, 0)"

definition problem_statistics :: "sp \<Rightarrow> error + (nat option \<times> nat \<times> nat \<times> nat)" where
  "problem_statistics p =
     (case p of
        EmbeddedSP time_stages stage_to_variables_map \<Rightarrow>
          (case count_embedded stage_to_variables_map (butlast time_stages) (0, 0) of
             Inl e \<Rightarrow> Inl e
           | Inr (na, nac) \<Rightarrow> Inr (None, length time_stages, na, nac))
      | TreeSP t \<Rightarrow>
          (case count_tree (butlast (stages t)) of
             (na, nac) \<Rightarrow> Inr (Some (length (scenarios t)), length (stages t), na, nac)))"

subsection \<open>The reference model\<close>

text \<open>
  Modelled from the spec: \<^verbatim>\<open>ComponentUID(id_).find_component(reference_model)\<close> resolves
  an identifier against the reference model; the model is the mapping from identifiers
  to its components, and an identifier it does not know resolves to \<^verbatim>\<open>None\<close>.  Of a
  component, \<^verbatim>\<open>solve\<close> reads \<^verbatim>\<open>is_expression()\<close> and writes \<^verbatim>\<open>value\<close> and \<^verbatim>\<open>stale\<close>.
\<close>

record component =
  comp_value :: pyval
  stale :: bool
  is_expression :: bool

type_synonym reference_model = "(string \<times> component) list"

definition find_component :: "string \<Rightarrow> reference_model \<Rightarrow> component option" where
  "find_component vid m = map_of m vid"

text \<open>
  Lines 143 to 148, for one tree object: \<^verbatim>\<open>None.is_expression()\<close> raises
  \<^verbatim>\<open>AttributeError\<close>, and the components written before it stay written.
\<close>

fun load_tree_obj_solution ::
  "(string \<times> pyval) list \<Rightarrow> reference_model \<Rightarrow> (error + unit) \<times> reference_model" where
  "load_tree_obj_solution [] m = (Inr (), m)"
| "load_tree_obj_solution ((vid, v) # rest) m =
     (case find_component vid m of
        None \<Rightarrow> (Inl (AttributeError ''is_expression''), m)
      | Some var \<Rightarrow>
          if \<not> is_expression var
          then load_tree_obj_solution rest
                 (AList.update vid (var\<lparr>comp_value := v, stale := False\<rparr>) m)
          else load_tree_obj_solution rest m)"

text \<open>Lines 141 to 148: the loop over the tree objects of \<^verbatim>\<open>xhat\<close>.\<close>

fun load_xhat :: "xhat_map \<Rightarrow> reference_model \<Rightarrow> (error + unit) \<times> reference_model" where
  "load_xhat [] m = (Inr (), m)"
| "load_xhat ((tree_obj_name, tree_obj_solution) # rest) m =
     (case load_tree_obj_solution tree_obj_solution m of
        (Inl e, m') \<Rightarrow> (Inl e, m')
      | (Inr u, m') \<Rightarrow> load_xhat rest m')"

subsection \<open>SPSolver.solve\<close>

text \<open>
  Lines 80 to 85: with per-call options, \<^verbatim>\<open>self._solver_options\<close> becomes a fresh
  \<^verbatim>\<open>Options\<close> holding the persistent items and, over them, the per-call ones.
\<close>

definition override_options :: "solver_opts option \<Rightarrow> SPSolver \<Rightarrow> SPSolver" where
  "override_options tmp_options self =
     (case tmp_options of
        None \<Rightarrow> self
      | Some tmp \<Rightarrow>
          self\<lparr>solver_options := set_items (set_items [] (solver_options self)) tmp\<rparr>)"

text \<open>
  \<^verbatim>\<open>solve(self, sp, *args, **kwds)\<close>: the keywords \<^verbatim>\<open>reference_model\<close> and \<^verbatim>\<open>options\<close>
  are popped and are parameters of their own here.  The strategy \<^verbatim>\<open>_solve_impl\<close> is
  the subclass's: a parameter that may raise and may change the solver's state in any
  way.  \<open>start\<close> and \<open>stop\<close> are the two readings of \<^verbatim>\<open>time.time()\<close>.  The result is
  the outcome, the solver's state after the call and the reference model after the call.

  The \<^verbatim>\<open>try\<close> body covers the statistics and the strategy; the \<^verbatim>\<open>finally\<close> clause runs
  on both outcomes; the write-back to the reference model comes after it.
\<close>

definition solve ::
  "(sp \<Rightarrow> kwds \<Rightarrow> SPSolver \<Rightarrow> (error + SPSolverResults) \<times> SPSolver) \<Rightarrow> rat \<Rightarrow> rat \<Rightarrow>
   sp \<Rightarrow> reference_model option \<Rightarrow> solver_opts option \<Rightarrow> kwds \<Rightarrow> SPSolver \<Rightarrow>
   (error + SPSolverResults) \<times> SPSolver \<times> reference_model option" where
  "solve solve_impl start stop p reference_model tmp_options kwds self =
     (let orig_options = solver_options self;
          self1 = override_options tmp_options self;
          (body, self2) =
            (case problem_statistics p of
               Inl e \<Rightarrow> (Inl e, self1)
             | Inr stats \<Rightarrow>
                 (case solve_impl p kwds self1 of
                    (Inl e, s) \<Rightarrow> (Inl e, s)
                  | (Inr results, s) \<Rightarrow>
                      (Inr (results\<lparr>pysp_time := Some (stop - start),
                                    solver_name := sp_name s\<rparr>), s)));
          self3 = (case tmp_options of
                     None \<Rightarrow> self2
                   | Some tmp \<Rightarrow> self2\<lparr>solver_options := orig_options\<rparr>)
      in case body of
           Inl e \<Rightarrow> (Inl e, self3, reference_model)
         | Inr results \<Rightarrow>
             (case reference_model of
                None \<Rightarrow> (Inr results, self3, None)
              | Some m \<Rightarrow>
                  (case xhat results of
                     None \<Rightarrow> (Inl (AttributeError ''xhat''), self3, Some m)
                   | Some xh \<Rightarrow>
                       (case load_xhat xh m of
                          (Inl e, m') \<Rightarrow> (Inl e, self3, Some m')
                        | (Inr u, m') \<Rightarrow> (Inr (results\<lparr>xhat := None\<rparr>), self3, Some m')))))"

text \<open>The base class's strategy: \<^verbatim>\<open>raise NotImplementedError\<close>.\<close>

definition base_solve_impl :: "sp \<Rightarrow> kwds \<Rightarrow> SPSolver \<Rightarrow> (error + SPSolverResults) \<times> SPSolver" where
  "base_solve_impl p kwds self = (Inl NotImplementedError, self)"

subsection \<open>SPSolverFactory\<close>

text \<open>
  A solver type, as far as the registry looks at it: whether
  \<^verbatim>\<open>issubclass(type_, SPSolver)\<close> holds, and the configuration block that
  \<^verbatim>\<open>type_.register_options()\<close> builds.  The registry is the dict
  \<^verbatim>\<open>SPSolverFactory._registered_solvers\<close>.
\<close>

record solver_type =
  type_name :: string
  issubclass_SPSolver :: bool
  register_options :: "(string \<times> pyval) list"

type_synonym registry = "(string \<times> solver_type) list"

definition registered_solvers_initial :: registry where
  "registered_solvers_initial = []"

definition register_solver :: "string \<Rightarrow> solver_type \<Rightarrow> registry \<Rightarrow> error + registry" where
  "register_solver name stype registered_solvers =
     (if \<not> issubclass_SPSolver stype
      then Inl (TypeError (''Can not register SP solver type '' @ type_name stype))
      else Inr (AList.update name stype registered_solvers))"

text \<open>
  \<^verbatim>\<open>SPSolverFactory(solver_name, **kwds)\<close>: the instance is the type with its
  configuration, the keyword options written over the declared ones.
\<close>

definition SPSolverFactory ::
  "string \<Rightarrow> kwds \<Rightarrow> registry \<Rightarrow> error + (solver_type \<times> (string \<times> pyval) list)" where
  "SPSolverFactory sname kwds registered_solvers =
     (case map_of registered_solvers sname of
        Some stype \<Rightarrow> Inr (stype, set_items (register_options stype) kwds)
      | None \<Rightarrow>
          Inl (ValueError (''No SPSolver object has been registered with name: '' @ sname)))"

section \<open>manager_worker_pyro.py\<close>

subsection \<open>The scenario tree's operations\<close>

definition all_nodes :: "scenario_tree \<Rightarrow> tree_node list" where
  "all_nodes t = concat (map nodes (stages t))"

text \<open>
  Modelled from the spec: \<^verbatim>\<open>contains_node\<close>, \<^verbatim>\<open>contains_bundle\<close> and \<^verbatim>\<open>findRootNode\<close>
  of the scenario tree (not among the sources) are lookups by name, and the root is the
  node that has no parent (\<^verbatim>\<open>None\<close> when the tree has none).
\<close>

definition contains_node :: "scenario_tree \<Rightarrow> string \<Rightarrow> bool" where
  "contains_node t n = (n \<in> set (map node_name (all_nodes t)))"

definition contains_bundle :: "scenario_tree \<Rightarrow> string \<Rightarrow> bool" where
  "contains_bundle t b = (b \<in> set (map fst (scenario_bundles t)))"

definition findRootNode :: "scenario_tree \<Rightarrow> tree_node option" where
  "findRootNode t = find (\<lambda>n. parent_name n = None) (all_nodes t)"

text \<open>
  Modelled from the spec: \<^verbatim>\<open>make_compressed(scenario_names, normalize)\<close> is missing
  from the sources.  Section 4.1 step 4: the sub-tree is the uncompressed tree restricted
  to the scenario list; a node stays when a retained scenario passes through it; with
  normalization disabled the probabilities are the original ones, and with it they are
  divided by their sum over the subset.  Bundles are materialized later (step 8), so the
  sub-tree starts with none.
\<close>

definition owns_descendant :: "scenario list \<Rightarrow> tree_node \<Rightarrow> bool" where
  "owns_descendant kept n = list_ex (\<lambda>s. node_name n \<in> set (node_path s)) kept"

definition make_compressed :: "scenario_tree \<Rightarrow> string list \<Rightarrow> bool \<Rightarrow> scenario_tree" where
  "make_compressed t scenario_names normalize_probs =
     (let kept = filter (\<lambda>s. scenario_name s \<in> set scenario_names) (scenarios t);
          total = sum_list (map probability kept)
      in t\<lparr>stages := map (\<lambda>st. st\<lparr>nodes := filter (owns_descendant kept) (nodes st)\<rparr>) (stages t),
            scenarios := (if normalize_probs
                          then map (\<lambda>s. s\<lparr>probability := probability s / total\<rparr>) kept
                          else kept),
            scenario_bundles := []\<rparr>)"

text \<open>
  Modelled from the spec: \<^verbatim>\<open>construct_instances_for_scenario_tree\<close> of the instance
  factory is missing from the sources.  Section 4.1 step 5: instances are constructed
  for exactly the scenarios of the compressed tree; the three flags (construction time
  report, memory profile, compiled instances) change no result.  A scenario the factory
  cannot build makes the construction fail.
\<close>

fun construct_instances ::
  "(string \<times> scenario_instance) list \<Rightarrow> scenario list \<Rightarrow>
   error + (string \<times> scenario_instance) list" where
  "construct_instances factory [] = Inr []"
| "construct_instances factory (s # rest) =
     (case map_of factory (scenario_name s) of
        None \<Rightarrow> Inl (ExternalError (scenario_name s))
      | Some i \<Rightarrow>
          (case construct_instances factory rest of
             Inl e \<Rightarrow> Inl e
           | Inr r \<Rightarrow> Inr ((scenario_name s, i) # r)))"

definition construct_instances_for_scenario_tree ::
  "(string \<times> scenario_instance) list \<Rightarrow> scenario_tree \<Rightarrow> bool \<Rightarrow> bool \<Rightarrow> bool \<Rightarrow>
   error + (string \<times> scenario_instance) list" where
  "construct_instances_for_scenario_tree factory t output_instance_construction_time
     profile_memory compile_scenario_instances = construct_instances factory (scenarios t)"

text \<open>
  Modelled from the spec: \<^verbatim>\<open>linkInInstances\<close> is missing from the sources.  Section 4.1
  step 6: each scenario takes the objective sense that is forced, or else the one its
  instance declares.  The variable identities it assigns to the nodes are read by no
  property below and are left as they are.
\<close>

fun link_scenarios ::
  "(string \<times> scenario_instance) list \<Rightarrow> sense option \<Rightarrow> scenario list \<Rightarrow> error + scenario list" where
  "link_scenarios insts forced [] = Inr []"
| "link_scenarios insts forced (s # rest) =
     (case map_of insts (scenario_name s) of
        None \<Rightarrow> Inl (KeyError (scenario_name s))
      | Some i \<Rightarrow>
          (case link_scenarios insts forced rest of
             Inl e \<Rightarrow> Inl e
           | Inr r \<Rightarrow>
               Inr (s\<lparr>scenario_objective_sense :=
                        Some (case forced of None \<Rightarrow> declared_sense i | Some f \<Rightarrow> f)\<rparr> # r)))"

definition linkInInstances ::
  "scenario_tree \<Rightarrow> (string \<times> scenario_instance) list \<Rightarrow> sense option \<Rightarrow> error + scenario_tree" where
  "linkInInstances t insts forced =
     (case link_scenarios insts forced (scenarios t) of
        Inl e \<Rightarrow> Inl e
      | Inr ss \<Rightarrow> Inr (t\<lparr>scenarios := ss\<rparr>))"

text \<open>
  Modelled from the spec: \<^verbatim>\<open>add_bundle\<close> is the base class's, missing from the sources.
  Section 4.1 step 8: the bundle merges the scenarios it names, and a name already
  present is refused.
\<close>

definition add_bundle :: "scenario_tree \<Rightarrow> string \<Rightarrow> string list \<Rightarrow> error + scenario_tree" where
  "add_bundle t b scenario_list =
     (if contains_bundle t b then Inl (ValueError b)
      else Inr (t\<lparr>scenario_bundles := scenario_bundles t @ [(b, scenario_list)]\<rparr>))"

subsection \<open>The collective-communication layer\<close>

text \<open>
  mpi4py is outside the repository.  A communicator is a handle; the layer's state
  records every \<^verbatim>\<open>Split\<close> (the communicator split, the colour, the handle returned) and
  every \<^verbatim>\<open>Free\<close>, in call order, and hands out fresh handles.  The calls listed in
  \<open>failing_splits\<close> and \<open>failing_frees\<close> raise.  For the colour \<^verbatim>\<open>MPI.UNDEFINED\<close> the
  handle returned is the null communicator; the worker discards it.
\<close>

type_synonym comm = nat

record mpi_namespace =
  UNDEFINED :: int

record mpi_world =
  split_calls :: "(comm \<times> int \<times> comm) list"
  free_calls :: "comm list"
  next_comm :: comm
  failing_splits :: "(comm \<times> int) list"
  failing_frees :: "comm list"

definition Split :: "comm \<Rightarrow> int \<Rightarrow> mpi_world \<Rightarrow> (error + comm) \<times> mpi_world" where
  "Split c color m =
     (if (c, color) \<in> set (failing_splits m) then (Inl (ExternalError ''MPI''), m)
      else (Inr (next_comm m),
            m\<lparr>split_calls := split_calls m @ [(c, color, next_comm m)],
              next_comm := Suc (next_comm m)\<rparr>))"

definition Free :: "comm \<Rightarrow> mpi_world \<Rightarrow> (error + unit) \<times> mpi_world" where
  "Free c m =
     (if c \<in> set (failing_frees m) then (Inl (ExternalError ''MPI''), m)
      else (Inr (), m\<lparr>free_calls := free_calls m @ [c]\<rparr>))"

subsection \<open>The worker\<close>

datatype WorkerInitType = Scenarios | Bundles

text \<open>
  \<^verbatim>\<open>WorkerInit\<close>: the fields \<^verbatim>\<open>type_\<close>, \<^verbatim>\<open>names\<close> and \<^verbatim>\<open>data\<close> (\<^verbatim>\<open>None\<close>, or the dict from
  bundle names to scenario-name lists).
\<close>

record WorkerInit =
  init_type :: WorkerInitType
  names :: "string list"
  data :: "(string \<times> string list) list option"

record worker_options =
  verbose :: bool
  output_times :: bool
  objective_sense_stage_based :: "sense option"
  output_instance_construction_time :: bool
  profile_memory :: bool
  compile_scenario_instances :: bool

text \<open>
  The attributes of \<^verbatim>\<open>ScenarioTreeManagerWorkerPyro\<close> that the methods below read and
  write; \<open>None\<close> is an attribute not yet assigned (or Python's \<^verbatim>\<open>None\<close>).
\<close>

record worker =
  worker_options :: worker_options
  modules_imported :: pyval
  server_name :: "string option"
  worker_name :: "string option"
  uncompressed_scenario_tree :: "scenario_tree option"
  worker_scenario_tree :: "scenario_tree option"
  instances :: "(string \<times> scenario_instance) list option"
  objective_sense :: "sense option"
  MPI :: "mpi_namespace option"
  mpi_comm_tree :: "(string \<times> comm) list"

text \<open>\<^verbatim>\<open>__init__\<close> (lines 67 to 78), for the options the worker was configured with.\<close>

definition new_worker :: "worker_options \<Rightarrow> worker" where
  "new_worker opts =
     \<lparr>worker_options = opts, modules_imported = PyNone, server_name = None,
      worker_name = None, uncompressed_scenario_tree = None, worker_scenario_tree = None,
      instances = None, objective_sense = None, MPI = None, mpi_comm_tree = []\<rparr>"

subsection \<open>\_init\<close>

text \<open>
  Lines 136 to 162: the validation of \<^verbatim>\<open>worker_init\<close> and the list
  \<^verbatim>\<open>scenarios_to_construct\<close>.  The \<^verbatim>\<open>type(...)\<close> assertions on lists hold by typing; the
  one on \<^verbatim>\<open>data\<close> fails for \<^verbatim>\<open>None\<close>.  A bundle name missing from \<^verbatim>\<open>data\<close> raises
  \<^verbatim>\<open>KeyError\<close> (in the verbose listing or in the loop, at the same name).
\<close>

fun extend_bundles ::
  "(string \<times> string list) list \<Rightarrow> string list \<Rightarrow> string list \<Rightarrow> error + string list" where
  "extend_bundles d [] acc = Inr acc"
| "extend_bundles d (bundle_name # rest) acc =
     (case map_of d bundle_name of
        None \<Rightarrow> Inl (KeyError bundle_name)
      | Some scenario_list \<Rightarrow> extend_bundles d rest (acc @ scenario_list))"

definition scenarios_to_construct :: "WorkerInit \<Rightarrow> error + string list" where
  "scenarios_to_construct worker_init =
     (case init_type worker_init of
        Scenarios \<Rightarrow>
          if \<not> length (names worker_init) > 0 then Inl (AssertionError ''len(names) > 0'')
          else if data worker_init \<noteq> None then Inl (AssertionError ''data is None'')
          else Inr ([] @ names worker_init)
      | Bundles \<Rightarrow>
          (case data worker_init of
             None \<Rightarrow> Inl (AssertionError ''type(data) is dict'')
           | Some d \<Rightarrow>
               if \<not> length (names worker_init) > 0 then Inl (AssertionError ''len(names) > 0'')
               else extend_bundles d (names worker_init) []))"

text \<open>
  Lines 194 to 198: the bundles, created on the worker's tree one after the other; the
  tree reached when an assertion fails is the tree left behind.
\<close>

fun create_bundles ::
  "(string \<times> string list) list \<Rightarrow> string list \<Rightarrow> scenario_tree \<Rightarrow> (error + unit) \<times> scenario_tree" where
  "create_bundles d [] t = (Inr (), t)"
| "create_bundles d (bundle_name # rest) t =
     (if contains_bundle t bundle_name then (Inl (AssertionError ''not contains_bundle''), t)
      else case map_of d bundle_name of
             None \<Rightarrow> (Inl (KeyError bundle_name), t)
           | Some scenario_list \<Rightarrow>
               (case add_bundle t bundle_name scenario_list of
                  Inl e \<Rightarrow> (Inl e, t)
                | Inr t' \<Rightarrow>
                    if \<not> contains_bundle t' bundle_name
                    then (Inl (AssertionError ''contains_bundle''), t')
                    else create_bundles d rest t'))"

text \<open>
  Lines 211 to 219: the loop over the nodes of one stage and the loop over the stages.
  The right-hand side \<^verbatim>\<open>self.mpi_comm_tree[node.parent.name].Split(0)\<close> is evaluated
  before the entry is stored: a node without parent raises \<^verbatim>\<open>AttributeError\<close>, a parent
  without entry raises \<^verbatim>\<open>KeyError\<close>.
\<close>

fun split_nodes ::
  "int \<Rightarrow> scenario_tree \<Rightarrow> tree_node list \<Rightarrow> (string \<times> comm) list \<Rightarrow> mpi_world \<Rightarrow>
   (error + unit) \<times> (string \<times> comm) list \<times> mpi_world" where
  "split_nodes undef t [] ct m = (Inr (), ct, m)"
| "split_nodes undef t (node # rest) ct m =
     (if contains_node t (node_name node) then
        (case parent_name node of
           None \<Rightarrow> (Inl (AttributeError ''name''), ct, m)
         | Some p \<Rightarrow>
             (case map_of ct p of
                None \<Rightarrow> (Inl (KeyError p), ct, m)
              | Some pc \<Rightarrow>
                  (case Split pc 0 m of
                     (Inl e, m') \<Rightarrow> (Inl e, ct, m')
                   | (Inr c, m') \<Rightarrow>
                       split_nodes undef t rest (AList.update (node_name node) c ct) m')))
      else
        (case parent_name node of
           None \<Rightarrow> (Inl (AttributeError ''name''), ct, m)
         | Some p \<Rightarrow>
             (case map_of ct p of
                None \<Rightarrow> split_nodes undef t rest ct m
              | Some pc \<Rightarrow>
                  (case Split pc undef m of
                     (Inl e, m') \<Rightarrow> (Inl e, ct, m')
                   | (Inr c, m') \<Rightarrow> split_nodes undef t rest ct m'))))"

fun split_stages ::
  "int \<Rightarrow> scenario_tree \<Rightarrow> stage list \<Rightarrow> (string \<times> comm) list \<Rightarrow> mpi_world \<Rightarrow>
   (error + unit) \<times> (string \<times> comm) list \<times> mpi_world" where
  "split_stages undef t [] ct m = (Inr (), ct, m)"
| "split_stages undef t (st # rest) ct m =
     (case split_nodes undef t (nodes st) ct m of
        (Inl e, ct', m') \<Rightarrow> (Inl e, ct', m')
      | (Inr u, ct', m') \<Rightarrow> split_stages undef t rest ct' m')"

text \<open>
  Lines 129 to 184: the bookkeeping attributes, the validation, the compressed tree, the
  instances and the linking.  Each attribute is assigned where the source assigns it, so
  the worker returned with an error is the worker as the raise leaves it.  The value
  returned beside it is the linked tree, \<^verbatim>\<open>self._scenario_tree\<close> after line 184.
\<close>

definition init_link ::
  "string \<Rightarrow> scenario_tree \<Rightarrow> string \<Rightarrow> WorkerInit \<Rightarrow> pyval \<Rightarrow> worker \<Rightarrow>
   (error + scenario_tree) \<times> worker" where
  "init_link sname uncompressed wname worker_init mods self =
     (let self1 = self\<lparr>modules_imported := mods, server_name := Some sname,
                       uncompressed_scenario_tree := Some uncompressed,
                       worker_name := Some wname\<rparr>
      in case scenarios_to_construct worker_init of
           Inl e \<Rightarrow> (Inl e, self1)
         | Inr to_construct \<Rightarrow>
             (let t = make_compressed uncompressed to_construct False;
                  self2 = self1\<lparr>worker_scenario_tree := Some t\<rparr>
              in case construct_instances_for_scenario_tree
                        (scenario_instance_factory uncompressed) t
                        (output_instance_construction_time (worker_options self))
                        (profile_memory (worker_options self))
                        (compile_scenario_instances (worker_options self)) of
                   Inl e \<Rightarrow> (Inl e, self2)
                 | Inr insts \<Rightarrow>
                     (let self3 = self2\<lparr>instances := Some insts\<rparr>
                      in case linkInInstances t insts
                                (objective_sense_stage_based (worker_options self)) of
                           Inl e \<Rightarrow> (Inl e, self3)
                         | Inr t' \<Rightarrow> (Inr t', self3\<lparr>worker_scenario_tree := Some t'\<rparr>))))"

text \<open>
  Lines 186 to 189: the objective sense of the first scenario, and the assertion that
  every scenario has it.  \<^verbatim>\<open>self._scenario_tree._scenarios[0]\<close> raises \<^verbatim>\<open>IndexError\<close>
  on a tree without scenarios.
\<close>

definition check_objective_sense :: "scenario_tree \<Rightarrow> worker \<Rightarrow> (error + unit) \<times> worker" where
  "check_objective_sense t self =
     (case scenarios t of
        [] \<Rightarrow> (Inl (IndexError ''list index out of range''), self)
      | s0 # ss \<Rightarrow>
          (let self1 = self\<lparr>objective_sense := scenario_objective_sense s0\<rparr>
           in if list_all (\<lambda>s. scenario_objective_sense s = objective_sense self1) (scenarios t)
              then (Inr (), self1)
              else (Inl (AssertionError ''objective sense''), self1)))"

definition init_tree ::
  "string \<Rightarrow> scenario_tree \<Rightarrow> string \<Rightarrow> WorkerInit \<Rightarrow> pyval \<Rightarrow> worker \<Rightarrow> (error + unit) \<times> worker" where
  "init_tree sname uncompressed wname worker_init mods self =
     (case init_link sname uncompressed wname worker_init mods self of
        (Inl e, self1) \<Rightarrow> (Inl e, self1)
      | (Inr t, self1) \<Rightarrow> check_objective_sense t self1)"

text \<open>Lines 194 to 198 on the worker.\<close>

definition init_bundles :: "WorkerInit \<Rightarrow> worker \<Rightarrow> (error + unit) \<times> worker" where
  "init_bundles worker_init self =
     (case init_type worker_init of
        Scenarios \<Rightarrow> (Inr (), self)
      | Bundles \<Rightarrow>
          (case (worker_scenario_tree self, data worker_init) of
             (Some t, Some d) \<Rightarrow>
               (case create_bundles d (names worker_init) t of
                  (r, t') \<Rightarrow> (r, self\<lparr>worker_scenario_tree := Some t'\<rparr>))
           | _ \<Rightarrow> (Inl (AttributeError ''contains_bundle''), self)))"

text \<open>
  The slice \<^verbatim>\<open>stages[1:-1]\<close> of line 211: every stage but the first and the last (none,
  for a tree of fewer than three stages).
\<close>

definition interior_stages :: "scenario_tree \<Rightarrow> stage list" where
  "interior_stages t = butlast (tl (stages t))"

definition interior_nodes :: "scenario_tree \<Rightarrow> tree_node list" where
  "interior_nodes t = concat (map nodes (interior_stages t))"

text \<open>
  Lines 201 to 219: the communicators.  \<^verbatim>\<open>self.MPI\<close> is assigned before
  \<^verbatim>\<open>root_node.name\<close> is read.
\<close>

definition init_comm ::
  "mpi_namespace option \<Rightarrow> comm option \<Rightarrow> worker \<Rightarrow> mpi_world \<Rightarrow>
   (error + unit) \<times> worker \<times> mpi_world" where
  "init_comm mpi root_comm self world =
     (case mpi of
        None \<Rightarrow>
          if root_comm \<noteq> None then (Inl (AssertionError ''root_comm is None''), self, world)
          else (Inr (), self, world)
      | Some ns \<Rightarrow>
          (case root_comm of
             None \<Rightarrow> (Inl (AssertionError ''root_comm is not None''), self, world)
           | Some rc \<Rightarrow>
               (case (worker_scenario_tree self, uncompressed_scenario_tree self) of
                  (Some t, Some uncompressed) \<Rightarrow>
                    (let self1 = self\<lparr>MPI := Some ns\<rparr>
                     in case findRootNode t of
                          None \<Rightarrow> (Inl (AttributeError ''name''), self1, world)
                        | Some root_node \<Rightarrow>
                            (case split_stages (UNDEFINED ns) t
                                    (interior_stages uncompressed)
                                    (AList.update (node_name root_node) rc (mpi_comm_tree self1))
                                    world of
                               (r, ct, world') \<Rightarrow> (r, self1\<lparr>mpi_comm_tree := ct\<rparr>, world')))
                | _ \<Rightarrow> (Inl (AttributeError ''findRootNode''), self, world))))"

text \<open>
  \<^verbatim>\<open>_init\<close>.  \<open>base_init\<close> is the outcome of \<^verbatim>\<open>super()._init()\<close> (the base classes are
  not among the sources): \<^verbatim>\<open>NotImplementedError\<close> is expected, any other exception
  propagates, and a return is the developer error.
\<close>

definition init ::
  "error + unit \<Rightarrow> string \<Rightarrow> scenario_tree \<Rightarrow> string \<Rightarrow> WorkerInit \<Rightarrow> pyval \<Rightarrow>
   mpi_namespace option \<Rightarrow> comm option \<Rightarrow> worker \<Rightarrow> mpi_world \<Rightarrow>
   (error + unit) \<times> worker \<times> mpi_world" where
  "init base_init sname uncompressed wname worker_init mods mpi root_comm self world =
     (case base_init of
        Inr u \<Rightarrow> (Inl (AssertionError ''developer error''), self, world)
      | Inl e \<Rightarrow>
          if e \<noteq> NotImplementedError then (Inl e, self, world)
          else
            (case init_tree sname uncompressed wname worker_init mods self of
               (Inl e1, self1) \<Rightarrow> (Inl e1, self1, world)
             | (Inr u1, self1) \<Rightarrow>
                 (case init_bundles worker_init self1 of
                    (Inl e2, self2) \<Rightarrow> (Inl e2, self2, world)
                  | (Inr u2, self2) \<Rightarrow> init_comm mpi root_comm self2 world)))"

subsection \<open>\_close\_impl\<close>

text \<open>
  Lines 222 to 237.  \<open>base_close_impl\<close> is the outcome of the base class's hook, called
  first; the warning about unused options only prints.  The loop frees the values of
  the mapping in its order and stops at a \<^verbatim>\<open>Free\<close> that raises.
\<close>

fun free_all :: "comm list \<Rightarrow> mpi_world \<Rightarrow> (error + unit) \<times> mpi_world" where
  "free_all [] m = (Inr (), m)"
| "free_all (c # rest) m =
     (case Free c m of
        (Inl e, m') \<Rightarrow> (Inl e, m')
      | (Inr u, m') \<Rightarrow> free_all rest m')"

definition close_impl ::
  "error + unit \<Rightarrow> worker \<Rightarrow> mpi_world \<Rightarrow> (error + unit) \<times> worker \<times> mpi_world" where
  "close_impl base_close_impl self world =
     (case base_close_impl of
        Inl e \<Rightarrow> (Inl e, self, world)
      | Inr u \<Rightarrow>
          (case free_all (map snd (mpi_comm_tree self)) world of
             (r, world') \<Rightarrow> (r, self, world')))"

subsection \<open>Remote invocation\<close>

text \<open>
  Modelled from the spec: \<^verbatim>\<open>InvocationType\<close> is declared in a module that is not among
  the sources.  Section 4.2: the tag is \<^verbatim>\<open>Single\<close> or a collective variant, which may
  carry extra data.  Over the wire the tag may arrive as a \<^verbatim>\<open>(key, data)\<close> tuple.
\<close>

datatype InvocationType = Single | Variant string "pyval option"

datatype invocation_arg = EnumValue InvocationType | KeyData string "pyval option"

text \<open>
  The \<^verbatim>\<open>function\<close> argument: the name of a function (a string), a function serialized
  by dill, or a function object.
\<close>

datatype function_arg = FunctionName string | SerializedFunction string | FunctionObject string

definition is_string :: "function_arg \<Rightarrow> bool" where
  "is_string f = (case f of FunctionName n \<Rightarrow> True | _ \<Rightarrow> False)"

text \<open>
  What the invocation code takes from outside the file:
  \<^item> \<open>map_deprecated_invocation_type\<close>: the module's global of that name; the file
    neither defines nor imports it, and reading an unbound global raises \<^verbatim>\<open>NameError\<close>
    (\<open>None\<close> is the unbound name);
  \<^item> \<open>InvocationType_members\<close>: the members of the enumeration by name, each with
    whether it is an \<^verbatim>\<open>_EnumValueWithData\<close>;
  \<^item> \<open>dill_available\<close> and \<open>dill_loads\<close>: the optional dill module;
  \<^item> \<open>invoke_function_by_worker\<close>: the base class's helper that runs the user's
    function; it may raise and may change the worker in any way;
  \<^item> \<open>worker_methods\<close>: the callable attributes that \<^verbatim>\<open>getattr(self, name)\<close> finds.
\<close>

record invoke_env =
  map_deprecated_invocation_type :: "(InvocationType \<Rightarrow> InvocationType) option"
  InvocationType_members :: "(string \<times> bool) list"
  dill_available :: bool
  dill_loads :: "function_arg \<Rightarrow> error + function_arg"
  invoke_function_by_worker ::
    "function_arg \<Rightarrow> string option \<Rightarrow> InvocationType \<Rightarrow> pyval list \<Rightarrow> kwds option \<Rightarrow>
     worker \<Rightarrow> (error + pyval) \<times> worker"
  worker_methods ::
    "(string \<times> (pyval list \<Rightarrow> kwds \<Rightarrow> worker \<Rightarrow> (error + pyval) \<times> worker)) list"

definition worker_name_value :: "worker \<Rightarrow> pyval" where
  "worker_name_value self = (case worker_name self of None \<Rightarrow> PyNone | Some w \<Rightarrow> PyStr w)"

text \<open>Lines 259 to 266: the tag sent as a tuple is looked up and applied to its data.\<close>

definition member_value :: "string \<Rightarrow> InvocationType" where
  "member_value key = (if key = ''Single'' then Single else Variant key None)"

definition resolve_invocation_type ::
  "(string \<times> bool) list \<Rightarrow> invocation_arg \<Rightarrow> error + InvocationType" where
  "resolve_invocation_type members a =
     (case a of
        EnumValue it \<Rightarrow> Inr it
      | KeyData key d \<Rightarrow>
          (case map_of members key of
             None \<Rightarrow> Inl (AttributeError key)
           | Some with_data \<Rightarrow>
               (case d of
                  None \<Rightarrow> Inr (member_value key)
                | Some x \<Rightarrow>
                    if \<not> with_data then Inl (AssertionError ''_EnumValueWithData'')
                    else Inr (Variant key (Some x)))))"

text \<open>\<^verbatim>\<open>_invoke_function_impl\<close>, lines 239 to 288 (the timing is only printed).\<close>

definition invoke_function_impl ::
  "invoke_env \<Rightarrow> function_arg \<Rightarrow> string option \<Rightarrow> invocation_arg \<Rightarrow> pyval list \<Rightarrow>
   kwds option \<Rightarrow> worker \<Rightarrow> (error + pyval) \<times> worker" where
  "invoke_function_impl env function module_name invocation_type function_args function_kwds self =
     (case resolve_invocation_type (InvocationType_members env) invocation_type of
        Inl e \<Rightarrow> (Inl e, self)
      | Inr it \<Rightarrow>
          (case (if module_name = None
                 then (if \<not> dill_available env then Inl (AssertionError ''dill_available'')
                       else dill_loads env function)
                 else Inr function) of
             Inl e \<Rightarrow> (Inl e, self)
           | Inr f \<Rightarrow>
               invoke_function_by_worker env f module_name it function_args function_kwds self))"

text \<open>
  Lines 364 to 370 of \<^verbatim>\<open>invoke_function\<close>, on the local variable \<^verbatim>\<open>result\<close>: \<open>None\<close> is
  the variable while it is unbound, and reading it then raises \<^verbatim>\<open>UnboundLocalError\<close>.
\<close>

definition read_local :: "pyval option \<Rightarrow> error + pyval" where
  "read_local v = (case v of None \<Rightarrow> Inl (UnboundLocalError ''result'') | Some r \<Rightarrow> Inr r)"

definition wrap_function_result ::
  "pyval \<Rightarrow> InvocationType \<Rightarrow> bool \<Rightarrow> bool \<Rightarrow> pyval option \<Rightarrow> error + pyval" where
  "wrap_function_result wname invocation_type async oneway result =
     (case (if \<not> oneway
            then (if invocation_type = Single
                  then (case read_local result of
                          Inl e \<Rightarrow> Inl e
                        | Inr r \<Rightarrow> Inr (Some (PyDict [(wname, r)])))
                  else Inr result)
            else Inr result) of
        Inl e \<Rightarrow> Inl e
      | Inr result1 \<Rightarrow>
          (case (if async
                 then (case read_local result1 of
                         Inl e \<Rightarrow> Inl e
                       | Inr r \<Rightarrow> Inr (Some (PyAsyncResult r)))
                 else Inr result1) of
             Inl e \<Rightarrow> Inl e
           | Inr result2 \<Rightarrow> read_local result2))"

text \<open>
  \<^verbatim>\<open>invoke_function\<close>, lines 330 to 370.  Line 358 calls \<^verbatim>\<open>_invoke_function_impl\<close> as a
  statement: the value it returns is dropped, and \<^verbatim>\<open>result\<close> is still unbound when
  line 364 is reached.
\<close>

definition invoke_function ::
  "invoke_env \<Rightarrow> function_arg \<Rightarrow> string option \<Rightarrow> InvocationType \<Rightarrow> pyval list \<Rightarrow>
   kwds option \<Rightarrow> bool \<Rightarrow> bool \<Rightarrow> worker \<Rightarrow> (error + pyval) \<times> worker" where
  "invoke_function env function module_name invocation_type function_args function_kwds
     async oneway self =
     (if async \<and> oneway then (Inl (ValueError ''async oneway calls do not make sense''), self)
      else case map_deprecated_invocation_type env of
             None \<Rightarrow> (Inl (NameError ''_map_deprecated_invocation_type''), self)
           | Some f \<Rightarrow>
               (let invocation_type1 = f invocation_type
                in if \<not> is_string function \<and> module_name \<noteq> None
                   then (Inl (ValueError ''The module_name keyword must be None when the function argument is not a string.''), self)
                   else if is_string function \<and> module_name = None
                   then (Inl (ValueError ''A module name is required when a function name is given''), self)
                   else case invoke_function_impl env function module_name
                               (EnumValue invocation_type1) function_args function_kwds self of
                          (Inl e, self') \<Rightarrow> (Inl e, self')
                        | (Inr dropped, self') \<Rightarrow>
                            (wrap_function_result (worker_name_value self') invocation_type1
                               async oneway None, self')))"

text \<open>\<^verbatim>\<open>invoke_method\<close>, lines 372 to 396.\<close>

definition invoke_method ::
  "invoke_env \<Rightarrow> string \<Rightarrow> pyval list \<Rightarrow> kwds option \<Rightarrow> bool \<Rightarrow> bool \<Rightarrow> worker \<Rightarrow>
   (error + pyval) \<times> worker" where
  "invoke_method env method_name method_args method_kwds async oneway self =
     (if async \<and> oneway then (Inl (ValueError ''async oneway calls do not make sense''), self)
      else let kw = (case method_kwds of None \<Rightarrow> [] | Some k \<Rightarrow> k)
           in case map_of (worker_methods env) method_name of
                None \<Rightarrow> (Inl (AttributeError method_name), self)
              | Some meth \<Rightarrow>
                  (case meth method_args kw self of
                     (Inl e, self') \<Rightarrow> (Inl e, self')
                   | (Inr result, self') \<Rightarrow>
                       (let result1 = (if \<not> oneway
                                       then PyDict [(worker_name_value self', result)]
                                       else result);
                            result2 = (if async then PyAsyncResult result1 else result1)
                        in (Inr result2, self'))))"

subsection \<open>Well-formed trees and the calls of one run\<close>

text \<open>
  The invariant of section 3 of the specification, as a check on a tree: node names are
  distinct, the first stage holds the one root, which has no parent, and every node of a
  later stage has its parent in the stage before.
\<close>

fun parents_in_previous :: "tree_node list \<Rightarrow> stage list \<Rightarrow> bool" where
  "parents_in_previous prev [] = True"
| "parents_in_previous prev (st # rest) =
     (list_all (\<lambda>n. parent_name n \<in> set (map (\<lambda>q. Some (node_name q)) prev)) (nodes st)
      \<and> parents_in_previous (nodes st) rest)"

definition well_formed_tree :: "scenario_tree \<Rightarrow> bool" where
  "well_formed_tree t =
     (distinct (map node_name (all_nodes t))
      \<and> (case stages t of
            [] \<Rightarrow> False
          | st0 # rest \<Rightarrow>
              (case nodes st0 of
                 [r] \<Rightarrow> parent_name r = None \<and> parents_in_previous [r] rest
               | _ \<Rightarrow> False)))"

text \<open>
  A list of nodes lists parents first, over the names already \<open>seen\<close>, when every node
  has a new name and a parent among the names before it.
\<close>

fun parents_first :: "string list \<Rightarrow> tree_node list \<Rightarrow> bool" where
  "parents_first seen [] = True"
| "parents_first seen (n # ns) =
     (node_name n \<notin> set seen
      \<and> (case parent_name n of None \<Rightarrow> False | Some p \<Rightarrow> p \<in> set seen)
      \<and> parents_first (node_name n # seen) ns)"


definition frees_since :: "mpi_world \<Rightarrow> mpi_world \<Rightarrow> comm list" where
  "frees_since m m' = drop (length (free_calls m)) (free_calls m')"

section \<open>Example inputs\<close>

text \<open>
  Concrete inputs on which the properties below are exercised: a three-stage tree with
  root \<open>R\<close>, interior nodes \<open>A\<close> and \<open>B\<close> and three scenarios, a worker, strategies and
  user functions.
\<close>

definition mk_node :: "string \<Rightarrow> string option \<Rightarrow> tree_node" where
  "mk_node n p =
     \<lparr>node_name = n, parent_name = p, standard_variable_ids = [], discrete_variable_ids = []\<rparr>"

definition mk_scenario :: "string \<Rightarrow> rat \<Rightarrow> string list \<Rightarrow> scenario" where
  "mk_scenario n pr path =
     \<lparr>scenario_name = n, probability = pr, scenario_objective_sense = None, node_path = path\<rparr>"

definition example_tree :: scenario_tree where
  "example_tree =
     \<lparr>stages =
        [\<lparr>stage_name = ''T1'', nodes = [mk_node ''R'' None]\<rparr>,
         \<lparr>stage_name = ''T2'', nodes = [mk_node ''A'' (Some ''R''), mk_node ''B'' (Some ''R'')]\<rparr>,
         \<lparr>stage_name = ''T3'',
          nodes = [mk_node ''LA1'' (Some ''A''), mk_node ''LA2'' (Some ''A''),
                   mk_node ''LB1'' (Some ''B'')]\<rparr>],
      scenarios =
        [mk_scenario ''s1'' (1/2) [''R'', ''A'', ''LA1''],
         mk_scenario ''s2'' (1/4) [''R'', ''A'', ''LA2''],
         mk_scenario ''s3'' (1/4) [''R'', ''B'', ''LB1'']],
      scenario_bundles = [],
      scenario_instance_factory =
        [(''s1'', \<lparr>declared_sense = minimize\<rparr>),
         (''s2'', \<lparr>declared_sense = minimize\<rparr>),
         (''s3'', \<lparr>declared_sense = maximize\<rparr>)]\<rparr>"

definition example_options :: worker_options where
  "example_options =
     \<lparr>verbose = False, output_times = False, objective_sense_stage_based = None,
      output_instance_construction_time = False, profile_memory = False,
      compile_scenario_instances = False\<rparr>"

definition example_world :: mpi_world where
  "example_world =
     \<lparr>split_calls = [], free_calls = [], next_comm = 100, failing_splits = [],
      failing_frees = []\<rparr>"

definition example_mpi :: mpi_namespace where
  "example_mpi = \<lparr>UNDEFINED = -32766\<rparr>"

definition scenarios_init :: "string list \<Rightarrow> WorkerInit" where
  "scenarios_init ns = \<lparr>init_type = Scenarios, names = ns, data = None\<rparr>"

definition bundles_init :: "string list \<Rightarrow> (string \<times> string list) list \<Rightarrow> WorkerInit" where
  "bundles_init ns d = \<lparr>init_type = Bundles, names = ns, data = Some d\<rparr>"

text \<open>
  The worker of the specification's scenario: on the three-stage tree it owns \<open>s1\<close> and
  \<open>s2\<close>, both under \<open>A\<close>, and is handed the root communicator 0.
\<close>

definition example_init :: "(error + unit) \<times> worker \<times> mpi_world" where
  "example_init =
     init (Inl NotImplementedError) ''srv'' example_tree ''w'' (scenarios_init [''s1'', ''s2''])
       PyNone (Some example_mpi) (Some 0) (new_worker example_options) example_world"

definition example_worker :: worker where
  "example_worker = (new_worker example_options)\<lparr>worker_name := Some ''w''\<rparr>"

definition keep_invocation_type :: "InvocationType \<Rightarrow> InvocationType" where
  "keep_invocation_type it = it"

definition example_dill_loads :: "function_arg \<Rightarrow> error + function_arg" where
  "example_dill_loads f = Inr (FunctionObject ''f'')"

definition example_by_worker ::
  "function_arg \<Rightarrow> string option \<Rightarrow> InvocationType \<Rightarrow> pyval list \<Rightarrow> kwds option \<Rightarrow>
   worker \<Rightarrow> (error + pyval) \<times> worker" where
  "example_by_worker f mn it args kw self = (Inr (PyInt 7), self\<lparr>modules_imported := PyStr ''ran''\<rparr>)"

definition example_method :: "pyval list \<Rightarrow> kwds \<Rightarrow> worker \<Rightarrow> (error + pyval) \<times> worker" where
  "example_method args kw self = (Inr (PyInt 8), self\<lparr>modules_imported := PyStr ''ran''\<rparr>)"

definition example_env :: invoke_env where
  "example_env =
     \<lparr>map_deprecated_invocation_type = Some keep_invocation_type,
      InvocationType_members = [(''Single'', False), (''PerScenario'', False)],
      dill_available = True,
      dill_loads = example_dill_loads,
      invoke_function_by_worker = example_by_worker,
      worker_methods = [(''m'', example_method)]\<rparr>"

definition example_xhat :: xhat_map where
  "example_xhat = [(''A'', [(''y'', PyInt 1)]), (''B'', [(''y'', PyInt 2)])]"

definition example_model :: reference_model where
  "example_model = [(''y'', \<lparr>comp_value = PyNone, stale = True, is_expression = False\<rparr>)]"

definition example_solve_impl ::
  "sp \<Rightarrow> kwds \<Rightarrow> SPSolver \<Rightarrow> (error + SPSolverResults) \<times> SPSolver" where
  "example_solve_impl p kw self =
     (Inr (new_SPSolverResults\<lparr>xhat := Some example_xhat\<rparr>),
      self\<lparr>solver_options := AList.update ''seen'' (PyBool True) (solver_options self)\<rparr>)"


definition example_solver :: SPSolver where
  "example_solver = \<lparr>sp_name = PyStr ''ef'', solver_options = [(''mipgap'', PyInt 1)]\<rparr>"

definition solver_type_ef :: solver_type where
  "solver_type_ef = \<lparr>type_name = ''EF'', issubclass_SPSolver = True, register_options = []\<rparr>"

definition solver_type_ddsip :: solver_type where
  "solver_type_ddsip = \<lparr>type_name = ''DDSIP'', issubclass_SPSolver = True, register_options = []\<rparr>"

section \<open>Properties of spsolver.py\<close>

subsection \<open>Scoped option override\<close>



subsection \<open>The solver registry\<close>

text \<open>
  Claim C5, as the code has it.  \<^verbatim>\<open>_register_solver\<close> checks the type and nothing else:
  after a registration under a name, a second registration of a type derived from
  \<^verbatim>\<open>SPSolver\<close> under the same name succeeds, the name then maps to the second type, and
  the factory builds the second type.
\<close>

theorem register_solver_second_replaces:
  "register_solver n T1 reg = Inr reg1 \<Longrightarrow> issubclass_SPSolver T2 \<Longrightarrow>
   register_solver n T2 reg1 = Inr (AList.update n T2 reg1)
   \<and> map_of (AList.update n T2 reg1) n = Some T2
   \<and> SPSolverFactory n [] (AList.update n T2 reg1) = Inr (T2, register_options T2)"
  by (simp add: register_solver_def SPSolverFactory_def update_conv')

text \<open>Claim C5, the amended statement at two solver types registered as \<open>ef\<close>.\<close>

theorem register_solver_second_replaces_witness:
  "register_solver ''ef'' solver_type_ef registered_solvers_initial = Inr [(''ef'', solver_type_ef)]
   \<and> issubclass_SPSolver solver_type_ddsip
   \<and> register_solver ''ef'' solver_type_ddsip [(''ef'', solver_type_ef)]
       = Inr (AList.update ''ef'' solver_type_ddsip [(''ef'', solver_type_ef)])
   \<and> SPSolverFactory ''ef'' [] (AList.update ''ef'' solver_type_ddsip [(''ef'', solver_type_ef)])
       = Inr (solver_type_ddsip, register_options solver_type_ddsip)"
proof -
  have h1: "register_solver ''ef'' solver_type_ef registered_solvers_initial
              = Inr [(''ef'', solver_type_ef)]"
    by (simp add: register_solver_def registered_solvers_initial_def solver_type_ef_def)
  have h2: "issubclass_SPSolver solver_type_ddsip"
    by (simp add: solver_type_ddsip_def)
  show ?thesis
    using h1 h2 register_solver_second_replaces [OF h1 h2] by simp
qed

text \<open>
  Claim C5 as stated fails: the second registration under \<open>ef\<close> returns a registry, in
  which the first type is gone.
\<close>

theorem register_solver_same_name_counterexample:
  "register_solver ''ef'' solver_type_ef registered_solvers_initial = Inr [(''ef'', solver_type_ef)]
   \<and> register_solver ''ef'' solver_type_ddsip [(''ef'', solver_type_ef)]
       = Inr [(''ef'', solver_type_ddsip)]"
  by (simp add: register_solver_def registered_solvers_initial_def solver_type_ef_def
        solver_type_ddsip_def)

section \<open>Properties of manager\_worker\_pyro.py\<close>

subsection \<open>Remote invocation\<close>

text \<open>
  Claim C8.  With \<^verbatim>\<open>async\<close> and \<^verbatim>\<open>oneway\<close> both true, \<^verbatim>\<open>invoke_function\<close> and
  \<^verbatim>\<open>invoke_method\<close> raise \<^verbatim>\<open>ValueError\<close> and leave the worker as it was, for every
  environment: neither the user's function nor the target method, which may change the
  worker in any way, is run.
\<close>

theorem async_oneway_rejected:
  "invoke_function env function module_name invocation_type function_args function_kwds True True self
     = (Inl (ValueError ''async oneway calls do not make sense''), self)
   \<and> invoke_method env method_name method_args method_kwds True True self
     = (Inl (ValueError ''async oneway calls do not make sense''), self)"
  by (simp add: invoke_function_def invoke_method_def)

text \<open>
  Claim C8 on a worker whose method \<open>m\<close> and whose user function mark the worker when
  they run: with both flags the worker is unmarked, and without them \<open>m\<close> does run.
\<close>

theorem async_oneway_rejected_witness:
  "invoke_function example_env (FunctionName ''f'') (Some ''mod'') Single [] None True True example_worker
     = (Inl (ValueError ''async oneway calls do not make sense''), example_worker)
   \<and> invoke_method example_env ''m'' [] None True True example_worker
     = (Inl (ValueError ''async oneway calls do not make sense''), example_worker)
   \<and> invoke_method example_env ''m'' [] None False False example_worker
     = (Inr (PyDict [(PyStr ''w'', PyInt 8)]), example_worker\<lparr>modules_imported := PyStr ''ran''\<rparr>)"
  using async_oneway_rejected [of example_env "FunctionName ''f''" "Some ''mod''" Single "[]" None
          example_worker "''m''" "[]" None]
  by (simp add: invoke_method_def example_env_def example_method_def worker_name_value_def
        example_worker_def new_worker_def)

text \<open>
  Claim C1: in default mode \<^verbatim>\<open>invoke_function\<close> returns the mapping from the worker's name
  to the value of the invocation helper.  The code does not do that.  On the worker
  named \<open>w\<close>, with the function name \<open>f\<close>, its module \<open>mod\<close>, the invocation type
  \<^verbatim>\<open>Single\<close> and neither flag, \<^verbatim>\<open>_invoke_function_impl\<close> runs the user's function and
  returns 7, and \<^verbatim>\<open>invoke_function\<close> raises \<^verbatim>\<open>UnboundLocalError\<close> where the claim has the
  mapping from \<open>w\<close> to 7: line 358 drops the value, so \<^verbatim>\<open>result\<close> is unbound when line
  366 reads it.  That is with the global \<^verbatim>\<open>_map_deprecated_invocation_type\<close> bound; with
  the module as it is, line 345 raises \<^verbatim>\<open>NameError\<close> before that.  The sibling
  \<^verbatim>\<open>invoke_method\<close> binds \<^verbatim>\<open>result\<close> and returns the mapping from \<open>w\<close> to the method's
  value on the same worker.
\<close>

theorem invoke_function_default_raises:
  "invoke_function_impl example_env (FunctionName ''f'') (Some ''mod'') (EnumValue Single) [] None
      example_worker
     = (Inr (PyInt 7), example_worker\<lparr>modules_imported := PyStr ''ran''\<rparr>)
   \<and> invoke_function example_env (FunctionName ''f'') (Some ''mod'') Single [] None False False
      example_worker
     = (Inl (UnboundLocalError ''result''), example_worker\<lparr>modules_imported := PyStr ''ran''\<rparr>)
   \<and> invoke_function (example_env\<lparr>map_deprecated_invocation_type := None\<rparr>)
      (FunctionName ''f'') (Some ''mod'') Single [] None False False example_worker
     = (Inl (NameError ''_map_deprecated_invocation_type''), example_worker)
   \<and> invoke_method example_env ''m'' [] None False False example_worker
     = (Inr (PyDict [(PyStr ''w'', PyInt 8)]), example_worker\<lparr>modules_imported := PyStr ''ran''\<rparr>)"
  by (simp add: invoke_function_def invoke_function_impl_def resolve_invocation_type_def
        wrap_function_result_def read_local_def example_env_def example_by_worker_def
        keep_invocation_type_def is_string_def Let_def invoke_method_def example_method_def
        worker_name_value_def example_worker_def new_worker_def)

text \<open>
  The value of \<^verbatim>\<open>_invoke_function_impl\<close> is never bound to \<^verbatim>\<open>result\<close>, and every path
  through lines 364 to 370 reads \<^verbatim>\<open>result\<close>: \<^verbatim>\<open>invoke_function\<close> returns no value on any
  input, for any invocation type and any setting of the two flags.
\<close>

lemma invoke_function_never_returns:
  "fst (invoke_function env function module_name invocation_type function_args function_kwds
          async oneway self) \<noteq> Inr v"
  by (simp add: invoke_function_def wrap_function_result_def read_local_def Let_def
        split: option.splits prod.splits sum.splits)

subsection \<open>Worker construction\<close>

lemmas example_defs = example_tree_def mk_node_def mk_scenario_def example_options_def
  scenarios_init_def bundles_init_def new_worker_def example_world_def example_mpi_def

lemmas tree_defs = make_compressed_def owns_descendant_def
  construct_instances_for_scenario_tree_def linkInInstances_def scenarios_to_construct_def Let_def

lemma extend_bundles_total:
  "set bs \<subseteq> fst ` set d \<Longrightarrow> \<exists>l. extend_bundles d bs acc = Inr l"
proof (induction bs arbitrary: acc)
  case Nil
  then show ?case by simp
next
  case (Cons b bs)
  then obtain sl where "map_of d b = Some sl"
    by (cases "map_of d b") (auto simp: map_of_eq_None_iff)
  with Cons show ?case by simp
qed

text \<open>
  Claim C6, as the code has it.  For a \<^verbatim>\<open>Scenarios\<close> variant with an empty name list or
  with auxiliary data, and for a \<^verbatim>\<open>Bundles\<close> variant with an empty name list, \<^verbatim>\<open>_init\<close>
  fails with an \<^verbatim>\<open>AssertionError\<close> before the compressed tree, the instances, the
  bundles and the communicators are built, and the communication layer is untouched; by
  then it has assigned the four bookkeeping attributes and nothing else.  A \<^verbatim>\<open>Bundles\<close>
  variant with names, all of them keys of its data, passes the validation whatever the
  scenario lists are, the empty list included.
\<close>

theorem init_rejects_malformed:
  "((init_type wi = Scenarios \<and> (names wi = [] \<or> data wi \<noteq> None))
      \<or> (init_type wi = Bundles \<and> names wi = [])
     \<longrightarrow> (\<exists>msg. init (Inl NotImplementedError) sname ut wname wi mods mpi rc self world
           = (Inl (AssertionError msg),
              self\<lparr>modules_imported := mods, server_name := Some sname,
                   uncompressed_scenario_tree := Some ut, worker_name := Some wname\<rparr>,
              world)))
   \<and> (init_type wi = Bundles \<and> names wi \<noteq> [] \<and> data wi = Some d
        \<and> set (names wi) \<subseteq> fst ` set d
     \<longrightarrow> (\<exists>l. scenarios_to_construct wi = Inr l))"
proof (intro conjI impI)
  assume "(init_type wi = Scenarios \<and> (names wi = [] \<or> data wi \<noteq> None))
           \<or> (init_type wi = Bundles \<and> names wi = [])"
  then show "\<exists>msg. init (Inl NotImplementedError) sname ut wname wi mods mpi rc self world
           = (Inl (AssertionError msg),
              self\<lparr>modules_imported := mods, server_name := Some sname,
                   uncompressed_scenario_tree := Some ut, worker_name := Some wname\<rparr>,
              world)"
    by (auto simp: init_def init_tree_def init_link_def scenarios_to_construct_def Let_def
          split: option.splits)
next
  assume a: "init_type wi = Bundles \<and> names wi \<noteq> [] \<and> data wi = Some d
             \<and> set (names wi) \<subseteq> fst ` set d"
  then obtain l where "extend_bundles d (names wi) [] = Inr l"
    using extend_bundles_total by blast
  with a show "\<exists>l. scenarios_to_construct wi = Inr l"
    by (simp add: scenarios_to_construct_def)
qed

text \<open>
  Claim C6, the amended statement at a \<^verbatim>\<open>Scenarios\<close> variant without names and at a
  \<^verbatim>\<open>Bundles\<close> variant whose bundle \<open>b1\<close> has no scenario.
\<close>

theorem init_rejects_malformed_witness:
  "init_type (scenarios_init []) = Scenarios \<and> names (scenarios_init []) = []
   \<and> (\<exists>msg. init (Inl NotImplementedError) ''srv'' example_tree ''w'' (scenarios_init []) PyNone
          (Some example_mpi) (Some 0) (new_worker example_options) example_world
        = (Inl (AssertionError msg),
           (new_worker example_options)\<lparr>modules_imported := PyNone, server_name := Some ''srv'',
              uncompressed_scenario_tree := Some example_tree, worker_name := Some ''w''\<rparr>,
           example_world))
   \<and> init_type (bundles_init [''b1'', ''b2''] [(''b1'', []), (''b2'', [''s1''])]) = Bundles
   \<and> names (bundles_init [''b1'', ''b2''] [(''b1'', []), (''b2'', [''s1''])]) \<noteq> []
   \<and> data (bundles_init [''b1'', ''b2''] [(''b1'', []), (''b2'', [''s1''])])
       = Some [(''b1'', []), (''b2'', [''s1''])]
   \<and> (\<exists>l. scenarios_to_construct (bundles_init [''b1'', ''b2''] [(''b1'', []), (''b2'', [''s1''])])
         = Inr l)"
proof -
  have h1: "(init_type (scenarios_init []) = Scenarios
            \<and> (names (scenarios_init []) = [] \<or> data (scenarios_init []) \<noteq> None))
           \<or> (init_type (scenarios_init []) = Bundles \<and> names (scenarios_init []) = [])"
    by (simp add: scenarios_init_def)
  have h2: "init_type (bundles_init [''b1'', ''b2''] [(''b1'', []), (''b2'', [''s1''])]) = Bundles
            \<and> names (bundles_init [''b1'', ''b2''] [(''b1'', []), (''b2'', [''s1''])]) \<noteq> []
            \<and> data (bundles_init [''b1'', ''b2''] [(''b1'', []), (''b2'', [''s1''])])
                = Some [(''b1'', []), (''b2'', [''s1''])]
            \<and> set (names (bundles_init [''b1'', ''b2''] [(''b1'', []), (''b2'', [''s1''])]))
                \<subseteq> fst ` set [(''b1'', []), (''b2'', [''s1''])]"
    by (simp add: bundles_init_def)
  have c1: "\<exists>msg. init (Inl NotImplementedError) ''srv'' example_tree ''w'' (scenarios_init []) PyNone
          (Some example_mpi) (Some 0) (new_worker example_options) example_world
        = (Inl (AssertionError msg),
           (new_worker example_options)\<lparr>modules_imported := PyNone, server_name := Some ''srv'',
              uncompressed_scenario_tree := Some example_tree, worker_name := Some ''w''\<rparr>,
           example_world)"
    by (rule init_rejects_malformed [of "scenarios_init []" "''srv''" example_tree "''w''" PyNone
               "Some example_mpi" "Some 0" "new_worker example_options" example_world
               "[]", THEN conjunct1, THEN mp, OF h1])
  have c2: "\<exists>l. scenarios_to_construct (bundles_init [''b1'', ''b2''] [(''b1'', []), (''b2'', [''s1''])])
              = Inr l"
    by (rule init_rejects_malformed [of "bundles_init [''b1'', ''b2''] [(''b1'', []), (''b2'', [''s1''])]"
               "''srv''" example_tree "''w''" PyNone None None "new_worker example_options"
               example_world "[(''b1'', []), (''b2'', [''s1''])]",
               THEN conjunct2, THEN mp, OF h2])
  show ?thesis
    using h1 h2 c1 c2 by (simp add: scenarios_init_def)
qed

text \<open>
  Claim C6 as stated fails.  On a \<^verbatim>\<open>Scenarios\<close> variant without names \<^verbatim>\<open>_init\<close> raises,
  and the worker it leaves has its server name assigned, which the fresh worker had
  not.  And the validation accepts a \<^verbatim>\<open>Bundles\<close> variant in which the bundle \<open>b1\<close> maps
  to the empty list.
\<close>

theorem init_malformed_counterexample:
  "init (Inl NotImplementedError) ''srv'' example_tree ''w'' (scenarios_init []) PyNone None None
      (new_worker example_options) example_world
     = (Inl (AssertionError ''len(names) > 0''),
        (new_worker example_options)\<lparr>modules_imported := PyNone, server_name := Some ''srv'',
           uncompressed_scenario_tree := Some example_tree, worker_name := Some ''w''\<rparr>,
        example_world)
   \<and> server_name (new_worker example_options) = None
   \<and> server_name ((new_worker example_options)\<lparr>modules_imported := PyNone,
         server_name := Some ''srv'', uncompressed_scenario_tree := Some example_tree,
         worker_name := Some ''w''\<rparr>) = Some ''srv''
   \<and> scenarios_to_construct (bundles_init [''b1'', ''b2''] [(''b1'', []), (''b2'', [''s1''])])
     = Inr [''s1'']"
  by (simp add: init_def init_tree_def init_link_def scenarios_to_construct_def Let_def
        scenarios_init_def bundles_init_def new_worker_def)

lemma list_all_same_sense:
  "list_all (\<lambda>s. scenario_objective_sense s = x) ss \<Longrightarrow> s1 \<in> set ss \<Longrightarrow> s2 \<in> set ss \<Longrightarrow>
   scenario_objective_sense s1 = scenario_objective_sense s2"
  by (simp add: list_all_iff)

text \<open>
  Claim C7.  Let \<open>t\<close> be the worker's compressed tree after the instances are linked in
  (line 184).  If two of its scenarios differ in objective sense, \<^verbatim>\<open>_init\<close> raises, for
  every outcome of the base hook; no bundle is created and the communication layer is
  untouched.
\<close>

theorem init_rejects_mixed_senses:
  assumes "init_link sname ut wname wi mods self = (Inr t, self1)"
      and "s1 \<in> set (scenarios t)" and "s2 \<in> set (scenarios t)"
      and "scenario_objective_sense s1 \<noteq> scenario_objective_sense s2"
  shows "\<exists>e self'. init base_init sname ut wname wi mods mpi rc self world = (Inl e, self', world)"
proof (cases base_init)
  case (Inr u)
  then show ?thesis by (simp add: init_def)
next
  case (Inl e0)
  show ?thesis
  proof (cases "e0 = NotImplementedError")
    case False
    with Inl show ?thesis by (simp add: init_def)
  next
    case True
    obtain s0 ss where ne: "scenarios t = s0 # ss"
      using assms(2) by (cases "scenarios t") auto
    have "\<not> list_all (\<lambda>s. scenario_objective_sense s = scenario_objective_sense s0) (scenarios t)"
      using list_all_same_sense assms(2-4) by blast
    then have "check_objective_sense t self1
                 = (Inl (AssertionError ''objective sense''),
                    self1\<lparr>objective_sense := scenario_objective_sense s0\<rparr>)"
      using ne by (simp add: check_objective_sense_def Let_def)
    then show ?thesis
      using Inl True assms(1) by (simp add: init_def init_tree_def)
  qed
qed

text \<open>
  Claim C7 on the example tree: a worker for \<open>s1\<close> (whose instance minimizes) and \<open>s3\<close>
  (whose instance maximizes) is not constructed; the assertion of line 188 fails.
\<close>

theorem init_rejects_mixed_senses_witness:
  "(\<exists>t self1 s1 s2.
      init_link ''srv'' example_tree ''w'' (scenarios_init [''s1'', ''s3'']) PyNone
        (new_worker example_options) = (Inr t, self1)
      \<and> s1 \<in> set (scenarios t) \<and> s2 \<in> set (scenarios t)
      \<and> scenario_objective_sense s1 \<noteq> scenario_objective_sense s2)
   \<and> (\<exists>e self'. init (Inl NotImplementedError) ''srv'' example_tree ''w''
          (scenarios_init [''s1'', ''s3'']) PyNone None None (new_worker example_options)
          example_world = (Inl e, self', example_world))
   \<and> fst (init (Inl NotImplementedError) ''srv'' example_tree ''w'' (scenarios_init [''s1'', ''s3''])
            PyNone None None (new_worker example_options) example_world)
       = Inl (AssertionError ''objective sense'')"
proof -
  obtain t self1 where
    link: "init_link ''srv'' example_tree ''w'' (scenarios_init [''s1'', ''s3'']) PyNone
             (new_worker example_options) = (Inr t, self1)"
    and t: "scenarios t =
              [(mk_scenario ''s1'' (1/2) [''R'', ''A'', ''LA1''])\<lparr>scenario_objective_sense := Some minimize\<rparr>,
               (mk_scenario ''s3'' (1/4) [''R'', ''B'', ''LB1''])\<lparr>scenario_objective_sense := Some maximize\<rparr>]"
    by (simp add: init_link_def tree_defs example_defs)
  have m1: "(mk_scenario ''s1'' (1/2) [''R'', ''A'', ''LA1''])\<lparr>scenario_objective_sense := Some minimize\<rparr>
              \<in> set (scenarios t)"
    and m2: "(mk_scenario ''s3'' (1/4) [''R'', ''B'', ''LB1''])\<lparr>scenario_objective_sense := Some maximize\<rparr>
              \<in> set (scenarios t)"
    by (simp_all add: t)
  have ne: "scenario_objective_sense
              ((mk_scenario ''s1'' (1/2) [''R'', ''A'', ''LA1''])\<lparr>scenario_objective_sense := Some minimize\<rparr>)
            \<noteq> scenario_objective_sense
              ((mk_scenario ''s3'' (1/4) [''R'', ''B'', ''LB1''])\<lparr>scenario_objective_sense := Some maximize\<rparr>)"
    by simp
  have "\<exists>e self'. init (Inl NotImplementedError) ''srv'' example_tree ''w''
          (scenarios_init [''s1'', ''s3'']) PyNone None None (new_worker example_options)
          example_world = (Inl e, self', example_world)"
    by (rule init_rejects_mixed_senses [OF link m1 m2 ne])
  moreover have "fst (init (Inl NotImplementedError) ''srv'' example_tree ''w''
          (scenarios_init [''s1'', ''s3'']) PyNone None None (new_worker example_options)
          example_world) = Inl (AssertionError ''objective sense'')"
    using link t by (simp add: init_def init_tree_def check_objective_sense_def Let_def)
  ultimately show ?thesis using link m1 m2 ne by blast
qed

lemma link_scenarios_preserves:
  "link_scenarios insts forced ss = Inr ss' \<Longrightarrow>
   map scenario_name ss' = map scenario_name ss \<and> map probability ss' = map probability ss"
proof (induction ss arbitrary: ss')
  case Nil
  then show ?case by simp
next
  case (Cons s ss)
  then show ?case by (auto split: option.splits sum.splits)
qed

lemma init_link_Inr:
  assumes "init_link sname ut wname wi mods self = (Inr t, self1)"
  shows "\<exists>to_construct insts.
           scenarios_to_construct wi = Inr to_construct
         \<and> linkInInstances (make_compressed ut to_construct False) insts
              (objective_sense_stage_based (worker_options self)) = Inr t
         \<and> self1 = self\<lparr>modules_imported := mods, server_name := Some sname,
                        uncompressed_scenario_tree := Some ut, worker_name := Some wname,
                        worker_scenario_tree := Some t, instances := Some insts\<rparr>"
  using assms
  by (auto simp: init_link_def Let_def split: sum.splits)

lemma check_objective_sense_Inr:
  "check_objective_sense t self = (Inr u, self') \<Longrightarrow>
   \<exists>s. self' = self\<lparr>objective_sense := s\<rparr>"
  by (auto simp: check_objective_sense_def Let_def split: list.splits if_splits)

lemma init_comm_keeps_tree:
  "init_comm mpi rc self world = (r, self', world') \<Longrightarrow>
   worker_scenario_tree self' = worker_scenario_tree self
   \<and> uncompressed_scenario_tree self' = uncompressed_scenario_tree self"
  by (auto simp: init_comm_def Let_def split: option.splits if_splits prod.splits)

lemma init_Inr:
  assumes "init base_init sname ut wname wi mods mpi rc self world = (Inr u, self', world')"
  shows "\<exists>t self1 self2 self3 u1 u2.
           init_link sname ut wname wi mods self = (Inr t, self1)
         \<and> check_objective_sense t self1 = (Inr u1, self2)
         \<and> init_bundles wi self2 = (Inr u2, self3)
         \<and> init_comm mpi rc self3 world = (Inr u, self', world')"
  using assms
  by (auto simp: init_def init_tree_def split: sum.splits if_splits prod.splits)

lemma length_filter_names:
  assumes "distinct ns" "distinct (map f xs)" "set ns \<subseteq> f ` set xs"
  shows "length (filter (\<lambda>x. f x \<in> set ns) xs) = length ns"
proof -
  have d: "distinct (map f (filter (\<lambda>x. f x \<in> set ns) xs))"
    using assms(2) by (simp add: distinct_map_filter)
  have s: "set (map f (filter (\<lambda>x. f x \<in> set ns) xs)) = set ns"
    using assms(3) by auto
  have "length (map f (filter (\<lambda>x. f x \<in> set ns) xs)) = card (set ns)"
    using d s distinct_card by metis
  then show ?thesis using assms(1) by (simp add: distinct_card)
qed

text \<open>
  Claim C4.  After \<^verbatim>\<open>_init\<close> has completed for a \<^verbatim>\<open>Scenarios\<close> variant whose names are
  scenarios of the uncompressed tree, the scenarios of the worker's compressed tree are
  exactly the named ones (as many as there are names, when names are not repeated), and
  each carries the probability it has in the uncompressed tree: the names with their
  probabilities are those of the uncompressed tree restricted to the list, not
  renormalized.
\<close>

theorem init_scenarios_compressed_tree:
  assumes ok: "init base_init sname ut wname wi mods mpi rc self world = (Inr u, self', world')"
      and ty: "init_type wi = Scenarios"
      and known: "set (names wi) \<subseteq> scenario_name ` set (scenarios ut)"
  shows "\<exists>t. worker_scenario_tree self' = Some t
           \<and> scenario_name ` set (scenarios t) = set (names wi)
           \<and> (distinct (names wi) \<and> distinct (map scenario_name (scenarios ut))
                \<longrightarrow> length (scenarios t) = length (names wi))
           \<and> map (\<lambda>s. (scenario_name s, probability s)) (scenarios t)
               = map (\<lambda>s. (scenario_name s, probability s))
                   (filter (\<lambda>s. scenario_name s \<in> set (names wi)) (scenarios ut))"
proof -
  obtain t self1 self2 self3 u1 u2 where
    link: "init_link sname ut wname wi mods self = (Inr t, self1)"
    and chk: "check_objective_sense t self1 = (Inr u1, self2)"
    and bun: "init_bundles wi self2 = (Inr u2, self3)"
    and com: "init_comm mpi rc self3 world = (Inr u, self', world')"
    using init_Inr [OF ok] by blast
  obtain to_construct insts where
    tc: "scenarios_to_construct wi = Inr to_construct"
    and li: "linkInInstances (make_compressed ut to_construct False) insts
               (objective_sense_stage_based (worker_options self)) = Inr t"
    and s1: "worker_scenario_tree self1 = Some t"
    using init_link_Inr [OF link] by auto
  have tc': "to_construct = names wi"
    using tc ty by (auto simp: scenarios_to_construct_def split: if_splits)
  have "worker_scenario_tree self2 = Some t"
    using check_objective_sense_Inr [OF chk] s1 by auto
  moreover have "self3 = self2"
    using bun ty by (simp add: init_bundles_def)
  ultimately have tree: "worker_scenario_tree self' = Some t"
    using init_comm_keeps_tree [OF com] by simp
  obtain ss where
    ls: "link_scenarios insts (objective_sense_stage_based (worker_options self))
           (filter (\<lambda>s. scenario_name s \<in> set (names wi)) (scenarios ut)) = Inr ss"
    and ts: "scenarios t = ss"
    using li tc' by (auto simp: linkInInstances_def make_compressed_def Let_def split: sum.splits)
  note pres = link_scenarios_preserves [OF ls]
  have names_eq: "map scenario_name (scenarios t)
                    = map scenario_name (filter (\<lambda>s. scenario_name s \<in> set (names wi)) (scenarios ut))"
    and probs_eq: "map probability (scenarios t)
                    = map probability (filter (\<lambda>s. scenario_name s \<in> set (names wi)) (scenarios ut))"
    using pres ts by simp_all
  have set_eq: "scenario_name ` set (scenarios t) = set (names wi)"
  proof -
    have "scenario_name ` set (scenarios t) = set (map scenario_name (scenarios t))" by simp
    also have "\<dots> = scenario_name ` {s \<in> set (scenarios ut). scenario_name s \<in> set (names wi)}"
      by (simp add: names_eq)
    also have "\<dots> = set (names wi)" using known by auto
    finally show ?thesis .
  qed
  have len: "distinct (names wi) \<and> distinct (map scenario_name (scenarios ut))
               \<longrightarrow> length (scenarios t) = length (names wi)"
  proof
    assume d: "distinct (names wi) \<and> distinct (map scenario_name (scenarios ut))"
    have "length (scenarios t) = length (map scenario_name (scenarios t))" by simp
    also have "\<dots> = length (filter (\<lambda>s. scenario_name s \<in> set (names wi)) (scenarios ut))"
      by (simp add: names_eq)
    also have "\<dots> = length (names wi)"
      using length_filter_names [of "names wi" scenario_name "scenarios ut"] d known by simp
    finally show "length (scenarios t) = length (names wi)" .
  qed
  have pairs: "map (\<lambda>s. (scenario_name s, probability s)) (scenarios t)
               = map (\<lambda>s. (scenario_name s, probability s))
                   (filter (\<lambda>s. scenario_name s \<in> set (names wi)) (scenarios ut))"
  proof -
    have "map (\<lambda>s. (scenario_name s, probability s)) xs
            = zip (map scenario_name xs) (map probability xs)" for xs :: "scenario list"
      by (induction xs) auto
    then show ?thesis using names_eq probs_eq by simp
  qed
  show ?thesis using tree set_eq len pairs by blast
qed


lemmas init_defs = init_def init_tree_def init_link_def check_objective_sense_def
  init_bundles_def init_comm_def

text \<open>
  Claim C4 on the example tree: the worker for \<open>s1\<close> and \<open>s2\<close> holds these two scenarios
  with the probabilities 1/2 and 1/4, which sum to 3/4.
\<close>

theorem init_scenarios_compressed_tree_witness:
  "fst (init (Inl NotImplementedError) ''srv'' example_tree ''w'' (scenarios_init [''s1'', ''s2''])
          PyNone None None (new_worker example_options) example_world) = Inr ()
   \<and> init_type (scenarios_init [''s1'', ''s2'']) = Scenarios
   \<and> set (names (scenarios_init [''s1'', ''s2''])) \<subseteq> scenario_name ` set (scenarios example_tree)
   \<and> (\<exists>t. worker_scenario_tree (fst (snd (init (Inl NotImplementedError) ''srv'' example_tree ''w''
                 (scenarios_init [''s1'', ''s2'']) PyNone None None (new_worker example_options)
                 example_world))) = Some t
          \<and> scenario_name ` set (scenarios t) = {''s1'', ''s2''}
          \<and> length (scenarios t) = 2
          \<and> map (\<lambda>s. (scenario_name s, probability s)) (scenarios t)
              = [(''s1'', 1/2), (''s2'', 1/4)])"
proof -
  let ?X = "init (Inl NotImplementedError) ''srv'' example_tree ''w'' (scenarios_init [''s1'', ''s2''])
              PyNone None None (new_worker example_options) example_world"
  let ?wi = "scenarios_init [''s1'', ''s2'']"
  have fst_ok: "fst ?X = Inr ()"
    by (simp add: init_defs tree_defs example_defs)
  then have ok: "?X = (Inr (), fst (snd ?X), snd (snd ?X))"
    by (simp add: prod_eq_iff)
  have ty: "init_type ?wi = Scenarios"
    by (simp add: scenarios_init_def)
  have known: "set (names ?wi) \<subseteq> scenario_name ` set (scenarios example_tree)"
    by (simp add: example_defs)
  have d: "distinct (names ?wi) \<and> distinct (map scenario_name (scenarios example_tree))"
    by (simp add: example_defs)
  have c2: "set (names ?wi) = {''s1'', ''s2''}" and c3: "length (names ?wi) = 2"
    by (simp_all add: scenarios_init_def)
  have c4: "map (\<lambda>s. (scenario_name s, probability s))
              (filter (\<lambda>s. scenario_name s \<in> set (names ?wi)) (scenarios example_tree))
            = [(''s1'', 1/2), (''s2'', 1/4)]"
    by (simp add: example_defs)
  obtain t where
    t1: "worker_scenario_tree (fst (snd ?X)) = Some t"
    and t2: "scenario_name ` set (scenarios t) = set (names ?wi)"
    and t3: "distinct (names ?wi) \<and> distinct (map scenario_name (scenarios example_tree))
               \<longrightarrow> length (scenarios t) = length (names ?wi)"
    and t4: "map (\<lambda>s. (scenario_name s, probability s)) (scenarios t)
              = map (\<lambda>s. (scenario_name s, probability s))
                  (filter (\<lambda>s. scenario_name s \<in> set (names ?wi)) (scenarios example_tree))"
    using init_scenarios_compressed_tree [OF ok ty known] by blast
  have e2: "scenario_name ` set (scenarios t) = {''s1'', ''s2''}"
    by (simp only: t2 c2)
  have e3: "length (scenarios t) = 2"
    using t3 d c3 by (simp only:)
  have e4: "map (\<lambda>s. (scenario_name s, probability s)) (scenarios t) = [(''s1'', 1/2), (''s2'', 1/4)]"
    by (simp only: t4 c4)
  show ?thesis
    by (intro conjI exI [of _ t]) (rule fst_ok ty known t1 e2 e3 e4)+
qed

subsection \<open>Writing the solution back to the reference model\<close>

lemma load_tree_obj_solution_append:
  "load_tree_obj_solution (a @ b) m =
     (case load_tree_obj_solution a m of
        (Inl e, m') \<Rightarrow> (Inl e, m')
      | (Inr u, m') \<Rightarrow> load_tree_obj_solution b m')"
  by (induction a arbitrary: m) (auto split: option.splits)

lemma load_xhat_flat:
  "load_xhat xh m = load_tree_obj_solution (concat (map snd xh)) m"
proof (induction xh arbitrary: m)
  case Nil
  then show ?case by simp
next
  case (Cons a xh)
  obtain n sol where a: "a = (n, sol)" by (cases a)
  show ?case
    by (simp add: a load_tree_obj_solution_append Cons.IH split: prod.splits sum.splits)
qed

lemma map_of_rev_Cons:
  "map_of (rev ((k, v) # rest)) x =
     (case map_of (rev rest) x of Some w \<Rightarrow> Some w | None \<Rightarrow> if x = k then Some v else None)"
  by (simp add: map_add_def split: option.splits)

lemma load_tree_obj_solution_last:
  "load_tree_obj_solution sol m = (Inr u, m') \<Longrightarrow>
   map_of m' k =
     (case map_of (rev sol) k of
        None \<Rightarrow> map_of m k
      | Some v \<Rightarrow>
          (case map_of m k of
             None \<Rightarrow> None
           | Some c \<Rightarrow> if is_expression c then Some c
                       else Some (c\<lparr>comp_value := v, stale := False\<rparr>)))"
proof (induction sol arbitrary: m)
  case Nil
  then show ?case by simp
next
  case (Cons a sol)
  obtain vid v where a: "a = (vid, v)" by (cases a)
  from Cons.prems a obtain var where var: "map_of m vid = Some var"
    by (auto simp: find_component_def split: option.splits)
  show ?case
  proof (cases "is_expression var")
    case True
    with Cons.prems a var have "load_tree_obj_solution sol m = (Inr u, m')"
      by (simp add: find_component_def)
    from Cons.IH [OF this] show ?thesis
      using True var by (auto simp: a map_of_rev_Cons simp del: rev.simps split: option.splits)
  next
    case False
    with Cons.prems a var have
      "load_tree_obj_solution sol (AList.update vid (var\<lparr>comp_value := v, stale := False\<rparr>) m)
         = (Inr u, m')"
      by (simp add: find_component_def)
    from Cons.IH [OF this] show ?thesis
      using False var
      by (auto simp: a map_of_rev_Cons update_conv' simp del: rev.simps split: option.splits)
  qed
qed

text \<open>
  Claim C9, as the code has it.  Let \<^verbatim>\<open>solve\<close> be called with a reference model and
  return, the strategy having returned results whose \<^verbatim>\<open>xhat\<close> is \<open>xh\<close>.  Then the
  results returned carry no \<^verbatim>\<open>xhat\<close>, and every identifier of \<open>xh\<close> that resolves on
  the reference model to a component that is not an expression has, on the reference
  model after the call, the value of its last entry in iteration order over the tree
  objects (its only entry, when it occurs under one tree object), and is not stale.
\<close>

theorem solve_loads_reference_model:
  assumes ok: "solve solve_impl start stop p (Some m) tmp_options kwds self = (Inr results, self', rm')"
      and impl: "solve_impl p kwds (override_options tmp_options self) = (Inr r0, s)"
      and xh: "xhat r0 = Some xh"
  shows "xhat results = None
         \<and> (\<exists>m'. rm' = Some m'
              \<and> (\<forall>vid v c. map_of (rev (concat (map snd xh))) vid = Some v \<longrightarrow>
                    find_component vid m = Some c \<longrightarrow> \<not> is_expression c \<longrightarrow>
                    find_component vid m' = Some (c\<lparr>comp_value := v, stale := False\<rparr>)))"
proof -
  from ok impl xh obtain u m' where
    ld: "load_xhat xh m = (Inr u, m')" and rm: "rm' = Some m'" and res: "xhat results = None"
    by (auto simp: solve_def Let_def split: sum.splits prod.splits option.splits)
  have "load_tree_obj_solution (concat (map snd xh)) m = (Inr u, m')"
    using ld by (simp add: load_xhat_flat)
  from load_tree_obj_solution_last [OF this]
  have "\<forall>vid v c. map_of (rev (concat (map snd xh))) vid = Some v \<longrightarrow>
          find_component vid m = Some c \<longrightarrow> \<not> is_expression c \<longrightarrow>
          find_component vid m' = Some (c\<lparr>comp_value := v, stale := False\<rparr>)"
    by (simp add: find_component_def)
  with rm res show ?thesis by blast
qed

lemmas solve_defs = solve_def Let_def problem_statistics_def count_tree_def override_options_def
  new_SPSolverResults_def find_component_def

text \<open>
  Claim C9 as stated fails.  The strategy returns the value 1 for \<open>y\<close> under the tree
  node \<open>A\<close> and the value 2 under \<open>B\<close>; \<open>y\<close> resolves to a component that is not an
  expression; after the call its value on the reference model is 2, not the value 1
  of the entry under \<open>A\<close>.
\<close>

theorem solve_reference_model_counterexample:
  "example_solve_impl (TreeSP example_tree) [] example_solver
     = (Inr (new_SPSolverResults\<lparr>xhat := Some [(''A'', [(''y'', PyInt 1)]), (''B'', [(''y'', PyInt 2)])]\<rparr>),
        example_solver\<lparr>solver_options := [(''mipgap'', PyInt 1), (''seen'', PyBool True)]\<rparr>)
   \<and> find_component ''y'' example_model
       = Some \<lparr>comp_value = PyNone, stale = True, is_expression = False\<rparr>
   \<and> solve example_solve_impl 0 1 (TreeSP example_tree) (Some example_model) None [] example_solver
     = (Inr (new_SPSolverResults\<lparr>pysp_time := Some 1, solver_name := PyStr ''ef''\<rparr>),
        example_solver\<lparr>solver_options := [(''mipgap'', PyInt 1), (''seen'', PyBool True)]\<rparr>,
        Some [(''y'', \<lparr>comp_value = PyInt 2, stale = False, is_expression = False\<rparr>)])"
  by (simp add: solve_defs example_tree_def example_solve_impl_def example_solver_def
        example_xhat_def example_model_def)

text \<open>Claim C9, the amended statement on the same call: the last entry for \<open>y\<close> is 2.\<close>

theorem solve_loads_reference_model_witness:
  "solve example_solve_impl 0 1 (TreeSP example_tree) (Some example_model) None [] example_solver
     = (Inr (new_SPSolverResults\<lparr>pysp_time := Some 1, solver_name := PyStr ''ef''\<rparr>),
        example_solver\<lparr>solver_options := [(''mipgap'', PyInt 1), (''seen'', PyBool True)]\<rparr>,
        Some [(''y'', \<lparr>comp_value = PyInt 2, stale = False, is_expression = False\<rparr>)])
   \<and> map_of (rev (concat (map snd example_xhat))) ''y'' = Some (PyInt 2)
   \<and> xhat (new_SPSolverResults\<lparr>pysp_time := Some 1, solver_name := PyStr ''ef''\<rparr>) = None
   \<and> (\<exists>m'. Some [(''y'', \<lparr>comp_value = PyInt 2, stale = False, is_expression = False\<rparr>)] = Some m'
         \<and> find_component ''y'' m'
             = Some \<lparr>comp_value = PyInt 2, stale = False, is_expression = False\<rparr>)"
proof -
  have ok: "solve example_solve_impl 0 1 (TreeSP example_tree) (Some example_model) None []
              example_solver
            = (Inr (new_SPSolverResults\<lparr>pysp_time := Some 1, solver_name := PyStr ''ef''\<rparr>),
               example_solver\<lparr>solver_options := [(''mipgap'', PyInt 1), (''seen'', PyBool True)]\<rparr>,
               Some [(''y'', \<lparr>comp_value = PyInt 2, stale = False, is_expression = False\<rparr>)])"
    by (simp add: solve_defs example_tree_def example_solve_impl_def example_solver_def
          example_xhat_def example_model_def)
  have impl: "example_solve_impl (TreeSP example_tree) [] (override_options None example_solver)
              = (Inr (new_SPSolverResults\<lparr>xhat := Some example_xhat\<rparr>),
                 example_solver\<lparr>solver_options := [(''mipgap'', PyInt 1), (''seen'', PyBool True)]\<rparr>)"
    by (simp add: example_solve_impl_def example_solver_def override_options_def)
  have xh: "xhat (new_SPSolverResults\<lparr>xhat := Some example_xhat\<rparr>) = Some example_xhat"
    by simp
  have last: "map_of (rev (concat (map snd example_xhat))) ''y'' = Some (PyInt 2)"
    by (simp add: example_xhat_def)
  have comp: "find_component ''y'' example_model
                = Some \<lparr>comp_value = PyNone, stale = True, is_expression = False\<rparr>"
    by (simp add: find_component_def example_model_def)
  from solve_loads_reference_model [OF ok impl xh] obtain m' where
    r1: "xhat (new_SPSolverResults\<lparr>pysp_time := Some 1, solver_name := PyStr ''ef''\<rparr>) = None"
    and r2: "Some [(''y'', \<lparr>comp_value = PyInt 2, stale = False, is_expression = False\<rparr>)] = Some m'"
    and r3: "\<forall>vid v c. map_of (rev (concat (map snd example_xhat))) vid = Some v \<longrightarrow>
               find_component vid example_model = Some c \<longrightarrow> \<not> is_expression c \<longrightarrow>
               find_component vid m' = Some (c\<lparr>comp_value := v, stale := False\<rparr>)"
    by blast
  have r4: "find_component ''y'' m'
              = Some \<lparr>comp_value = PyInt 2, stale = False, is_expression = False\<rparr>"
    using r3 last comp by fastforce
  show ?thesis
    by (intro conjI exI [of _ m']) (rule ok last r1 r2 r4)+
qed

subsection \<open>The communicator loop\<close>






lemma split_nodes_other_keys:
  "split_nodes undef t ns ct m = (r, ct', m') \<Longrightarrow> k \<notin> node_name ` set ns \<Longrightarrow>
   map_of ct' k = map_of ct k"
proof (induction ns arbitrary: ct m)
  case Nil
  then show ?case by simp
next
  case (Cons n ns)
  then show ?case
    by (auto simp: update_conv' split: if_splits option.splits sum.splits prod.splits)
qed




lemma parents_first_names:
  "parents_first seen ns \<Longrightarrow> node_name ` set ns \<inter> set seen = {}"
proof (induction ns arbitrary: seen)
  case Nil
  then show ?case by simp
next
  case (Cons a ns)
  from Cons.prems have a: "node_name a \<notin> set seen"
    and pf: "parents_first (node_name a # seen) ns"
    by auto
  from Cons.IH [OF pf] have "node_name ` set ns \<inter> set seen = {}" by auto
  with a show ?case by auto
qed



lemma split_nodes_append:
  "split_nodes undef t (a @ b) ct m =
     (case split_nodes undef t a ct m of
        (Inl e, ct', m') \<Rightarrow> (Inl e, ct', m')
      | (Inr u, ct', m') \<Rightarrow> split_nodes undef t b ct' m')"
  by (induction a arbitrary: ct m) (auto split: option.splits sum.splits prod.splits)

lemma split_stages_flat:
  "split_stages undef t sts ct m = split_nodes undef t (concat (map nodes sts)) ct m"
  by (induction sts arbitrary: ct m)
     (auto simp: split_nodes_append split: sum.splits prod.splits)

lemma parents_first_append:
  "parents_first seen (a @ b) =
     (parents_first seen a \<and> parents_first (rev (map node_name a) @ seen) b)"
  by (induction a arbitrary: seen) auto

lemma parents_first_mono:
  "parents_first seen ns \<Longrightarrow> set seen = set seen' \<Longrightarrow> parents_first seen' ns"
proof (induction ns arbitrary: seen seen')
  case Nil
  then show ?case by simp
next
  case (Cons a ns)
  have "parents_first (node_name a # seen') ns"
    using Cons.IH [of "node_name a # seen" "node_name a # seen'"] Cons.prems by auto
  then show ?case using Cons.prems by (auto split: option.splits)
qed

lemma parents_first_stage:
  assumes "list_all (\<lambda>n. parent_name n \<in> set (map (\<lambda>q. Some (node_name q)) prev)) ns"
      and "node_name ` set prev \<subseteq> set seen"
      and "distinct (map node_name ns)"
      and "node_name ` set ns \<inter> set seen = {}"
  shows "parents_first seen ns"
  using assms
proof (induction ns arbitrary: seen)
  case Nil
  then show ?case by simp
next
  case (Cons a ns)
  from Cons.prems(1) obtain q where q: "q \<in> set prev" "parent_name a = Some (node_name q)"
    by auto
  have "parents_first (node_name a # seen) ns"
    using Cons.prems by (intro Cons.IH) auto
  then show ?case using q Cons.prems by auto
qed

lemma parents_first_stages:
  assumes "parents_in_previous prev sts"
      and "node_name ` set prev \<subseteq> set seen"
      and "distinct (map node_name (concat (map nodes sts)))"
      and "node_name ` set (concat (map nodes sts)) \<inter> set seen = {}"
  shows "parents_first seen (concat (map nodes sts))"
  using assms
proof (induction sts arbitrary: prev seen)
  case Nil
  then show ?case by simp
next
  case (Cons st sts)
  have hd: "parents_first seen (nodes st)"
    using Cons.prems by (intro parents_first_stage [of prev]) auto
  have sub: "set (concat (map nodes sts)) \<subseteq> set (concat (map nodes (st # sts)))"
    by auto
  have d: "distinct (map node_name (nodes st) @ map node_name (concat (map nodes sts)))"
    using Cons.prems(3) by simp
  then have dj: "set (map node_name (nodes st)) \<inter> set (map node_name (concat (map nodes sts))) = {}"
    and d2: "distinct (map node_name (concat (map nodes sts)))"
    by (simp_all only: distinct_append)
  have s4: "node_name ` set (concat (map nodes sts)) \<inter> set seen = {}"
    using Cons.prems(4) sub by blast
  have s5: "node_name ` set (concat (map nodes sts)) \<inter> set (rev (map node_name (nodes st)) @ seen) = {}"
    using dj s4 by (simp only: set_append set_rev set_map) blast
  have pip: "parents_in_previous (nodes st) sts"
    using Cons.prems(1) by simp
  have s2: "node_name ` set (nodes st) \<subseteq> set (rev (map node_name (nodes st)) @ seen)"
    by auto
  have tl: "parents_first (rev (map node_name (nodes st)) @ seen) (concat (map nodes sts))"
    using Cons.IH [OF pip s2 d2 s5] .
  show ?case using hd tl by (simp add: parents_first_append)
qed

lemma parents_in_previous_butlast:
  "parents_in_previous prev sts \<Longrightarrow> parents_in_previous prev (butlast sts)"
  by (induction sts arbitrary: prev) auto

lemma parents_in_previous_Some:
  "parents_in_previous prev sts \<Longrightarrow> n \<in> set (concat (map nodes sts)) \<Longrightarrow> parent_name n \<noteq> None"
  by (induction sts arbitrary: prev) (auto simp: list_all_iff)

lemma concat_butlast_prefix:
  "\<exists>ys. concat (map nodes sts) = concat (map nodes (butlast sts)) @ ys"
proof (cases "sts = []")
  case True
  then show ?thesis by simp
next
  case False
  then have "concat (map nodes (butlast sts @ [last sts])) = concat (map nodes sts)"
    by simp
  then have "concat (map nodes sts) = concat (map nodes (butlast sts)) @ nodes (last sts)"
    by (simp del: append_butlast_last_id)
  then show ?thesis by blast
qed

lemma well_formed_interior:
  assumes "well_formed_tree ut"
  shows "\<exists>r rest. stages ut = r # rest \<and> (\<exists>root. nodes r = [root] \<and> parent_name root = None
           \<and> parents_first [node_name root] (interior_nodes ut)
           \<and> (\<forall>n \<in> set (all_nodes ut). parent_name n = None \<longrightarrow> n = root))"
proof -
  from assms obtain st0 rest root where
    st: "stages ut = st0 # rest" and n0: "nodes st0 = [root]" and pr: "parent_name root = None"
    and pip: "parents_in_previous [root] rest"
    and dist: "distinct (map node_name (all_nodes ut))"
    by (auto simp: well_formed_tree_def split: list.splits)
  have all: "all_nodes ut = root # concat (map nodes rest)"
    by (simp add: all_nodes_def st n0)
  obtain ys where ys: "concat (map nodes rest) = concat (map nodes (butlast rest)) @ ys"
    using concat_butlast_prefix by blast
  have d1: "distinct (map node_name (concat (map nodes (butlast rest))))"
    and d2: "node_name root \<notin> node_name ` set (concat (map nodes (butlast rest)))"
    using dist unfolding all ys by auto
  have "parents_first [node_name root] (concat (map nodes (butlast rest)))"
    using parents_in_previous_butlast [OF pip] d1 d2
    by (intro parents_first_stages [of "[root]"]) auto
  then have pf: "parents_first [node_name root] (interior_nodes ut)"
    by (simp add: interior_nodes_def interior_stages_def st)
  have "n = root" if n: "n \<in> set (all_nodes ut)" and pn: "parent_name n = None" for n
  proof (rule ccontr)
    assume "n \<noteq> root"
    with n have "n \<in> set (concat (map nodes rest))" unfolding all by simp
    from parents_in_previous_Some [OF pip this] pn show False by simp
  qed
  then show ?thesis using st n0 pr pf by blast
qed

lemma make_compressed_nodes:
  "set (all_nodes (make_compressed ut ns nz)) \<subseteq> set (all_nodes ut)"
  by (auto simp: make_compressed_def all_nodes_def Let_def)

lemma linkInInstances_stages:
  "linkInInstances t insts forced = Inr t' \<Longrightarrow> stages t' = stages t"
  by (auto simp: linkInInstances_def split: sum.splits)

lemma create_bundles_stages:
  "create_bundles d bs t = (r, t') \<Longrightarrow> stages t' = stages t"
proof (induction bs arbitrary: t)
  case Nil
  then show ?case by simp
next
  case (Cons b bs)
  then show ?case
    by (auto simp: add_bundle_def split: if_splits option.splits sum.splits)
qed

lemma init_bundles_Inr:
  assumes "init_bundles wi self = (Inr u, self')" and "worker_scenario_tree self = Some t"
  shows "\<exists>t'. worker_scenario_tree self' = Some t' \<and> stages t' = stages t
           \<and> uncompressed_scenario_tree self' = uncompressed_scenario_tree self
           \<and> mpi_comm_tree self' = mpi_comm_tree self"
proof (cases "init_type wi")
  case Scenarios
  with assms show ?thesis by (simp add: init_bundles_def)
next
  case Bundles
  with assms obtain d t' where
    "create_bundles d (names wi) t = (Inr u, t')" "self' = self\<lparr>worker_scenario_tree := Some t'\<rparr>"
    by (auto simp: init_bundles_def split: option.splits prod.splits)
  then show ?thesis using create_bundles_stages by fastforce
qed

lemma init_before_comm:
  assumes "init base_init sname ut wname wi mods mpi rc self world = (Inr u, self', world')"
  shows "\<exists>self3 t. init_comm mpi rc self3 world = (Inr u, self', world')
           \<and> worker_scenario_tree self3 = Some t
           \<and> uncompressed_scenario_tree self3 = Some ut
           \<and> mpi_comm_tree self3 = mpi_comm_tree self
           \<and> set (all_nodes t) \<subseteq> set (all_nodes ut)"
proof -
  obtain t self1 self2 self3 u1 u2 where
    link: "init_link sname ut wname wi mods self = (Inr t, self1)"
    and chk: "check_objective_sense t self1 = (Inr u1, self2)"
    and bun: "init_bundles wi self2 = (Inr u2, self3)"
    and com: "init_comm mpi rc self3 world = (Inr u, self', world')"
    using init_Inr [OF assms] by blast
  obtain to_construct insts where
    li: "linkInInstances (make_compressed ut to_construct False) insts
           (objective_sense_stage_based (worker_options self)) = Inr t"
    and s1: "self1 = self\<lparr>modules_imported := mods, server_name := Some sname,
                        uncompressed_scenario_tree := Some ut, worker_name := Some wname,
                        worker_scenario_tree := Some t, instances := Some insts\<rparr>"
    using init_link_Inr [OF link] by blast
  have "stages t = stages (make_compressed ut to_construct False)"
    using linkInInstances_stages [OF li] .
  then have sub: "set (all_nodes t) \<subseteq> set (all_nodes ut)"
    using make_compressed_nodes [of ut to_construct False] by (simp add: all_nodes_def)
  obtain s where s2: "self2 = self1\<lparr>objective_sense := s\<rparr>"
    using check_objective_sense_Inr [OF chk] by blast
  have t2: "worker_scenario_tree self2 = Some t" by (simp add: s2 s1)
  obtain t' where
    t3: "worker_scenario_tree self3 = Some t'" and st: "stages t' = stages t"
    and u3: "uncompressed_scenario_tree self3 = uncompressed_scenario_tree self2"
    and c3: "mpi_comm_tree self3 = mpi_comm_tree self2"
    using init_bundles_Inr [OF bun t2] by blast
  have "uncompressed_scenario_tree self3 = Some ut" by (simp add: u3 s2 s1)
  moreover have "mpi_comm_tree self3 = mpi_comm_tree self" by (simp add: c3 s2 s1)
  moreover have "set (all_nodes t') \<subseteq> set (all_nodes ut)"
    using sub st by (simp add: all_nodes_def)
  ultimately show ?thesis using com t3 by blast
qed

lemma init_comm_Inr:
  assumes "init_comm (Some ns) (Some rc) self3 world = (Inr u, self', world')"
      and "worker_scenario_tree self3 = Some t"
      and "uncompressed_scenario_tree self3 = Some ut"
  shows "\<exists>rt. findRootNode t = Some rt
           \<and> split_nodes (UNDEFINED ns) t (interior_nodes ut)
                (AList.update (node_name rt) rc (mpi_comm_tree self3)) world
               = (Inr u, mpi_comm_tree self', world')
           \<and> worker_scenario_tree self' = Some t"
  using assms
  by (auto simp: init_comm_def Let_def split_stages_flat interior_nodes_def
        split: option.splits prod.splits)

lemma findRootNode_Some:
  "findRootNode t = Some rt \<Longrightarrow> rt \<in> set (all_nodes t) \<and> parent_name rt = None"
  by (auto simp: findRootNode_def find_Some_iff)

lemma init_communicators:
  assumes ok: "init base_init sname ut wname wi mods (Some ns) (Some rc) self world
                 = (Inr u, self', world')"
      and wf: "well_formed_tree ut"
      and fresh: "mpi_comm_tree self = []"
  shows "\<exists>t rt. worker_scenario_tree self' = Some t \<and> findRootNode t = Some rt
           \<and> split_nodes (UNDEFINED ns) t (interior_nodes ut) [(node_name rt, rc)] world
               = (Inr u, mpi_comm_tree self', world')
           \<and> parents_first [node_name rt] (interior_nodes ut)"
proof -
  obtain self3 t where
    com: "init_comm (Some ns) (Some rc) self3 world = (Inr u, self', world')"
    and t3: "worker_scenario_tree self3 = Some t"
    and u3: "uncompressed_scenario_tree self3 = Some ut"
    and c3: "mpi_comm_tree self3 = mpi_comm_tree self"
    and sub: "set (all_nodes t) \<subseteq> set (all_nodes ut)"
    using init_before_comm [OF ok] by blast
  obtain rt where
    fr: "findRootNode t = Some rt"
    and sp: "split_nodes (UNDEFINED ns) t (interior_nodes ut)
               (AList.update (node_name rt) rc (mpi_comm_tree self3)) world
             = (Inr u, mpi_comm_tree self', world')"
    and t': "worker_scenario_tree self' = Some t"
    using init_comm_Inr [OF com t3 u3] by blast
  obtain rt0 where
    pf: "parents_first [node_name rt0] (interior_nodes ut)"
    and only: "\<forall>n \<in> set (all_nodes ut). parent_name n = None \<longrightarrow> n = rt0"
    using well_formed_interior [OF wf] by blast
  have "rt = rt0"
    using findRootNode_Some [OF fr] sub only by blast
  then show ?thesis
    using t' fr sp pf by (auto simp: c3 fresh)
qed

subsection \<open>Communicator topology and teardown\<close>


lemma free_all_total:
  "set cs \<inter> set (failing_frees m) = {} \<Longrightarrow>
   \<exists>m'. free_all cs m = (Inr (), m') \<and> free_calls m' = free_calls m @ cs"
proof (induction cs arbitrary: m)
  case Nil
  then show ?case by simp
next
  case (Cons c cs)
  let ?m1 = "m\<lparr>free_calls := free_calls m @ [c]\<rparr>"
  have f: "Free c m = (Inr (), ?m1)"
    using Cons.prems by (simp add: Free_def)
  have "set cs \<inter> set (failing_frees ?m1) = {}"
    using Cons.prems by auto
  from Cons.IH [OF this] obtain m' where
    "free_all cs ?m1 = (Inr (), m')" "free_calls m' = free_calls ?m1 @ cs"
    by blast
  then show ?case using f by simp
qed

text \<open>
  Claim C10.  After such an \<^verbatim>\<open>_init\<close>, when the base class's teardown hook returns and
  no \<^verbatim>\<open>Free\<close> raises, \<^verbatim>\<open>_close_impl\<close> returns and the \<^verbatim>\<open>Free\<close> calls it has made are
  exactly the communicators stored in \<^verbatim>\<open>mpi_comm_tree\<close>, in its order; the root
  communicator \<open>rc\<close> that the coordinator supplied is among them.
\<close>

theorem close_impl_frees_communicators:
  assumes ok: "init base_init sname ut wname wi mods (Some ns) (Some rc) self world
                 = (Inr u, self', world')"
      and wf: "well_formed_tree ut"
      and fresh: "mpi_comm_tree self = []"
      and base: "base_close_impl = Inr ()"
      and nofail: "set (map snd (mpi_comm_tree self')) \<inter> set (failing_frees w1) = {}"
  shows "\<exists>w2. close_impl base_close_impl self' w1 = (Inr (), self', w2)
           \<and> frees_since w1 w2 = map snd (mpi_comm_tree self')
           \<and> rc \<in> set (frees_since w1 w2)"
proof -
  obtain t rt where
    t: "worker_scenario_tree self' = Some t" and fr: "findRootNode t = Some rt"
    and sp: "split_nodes (UNDEFINED ns) t (interior_nodes ut) [(node_name rt, rc)] world
               = (Inr u, mpi_comm_tree self', world')"
    and pf: "parents_first [node_name rt] (interior_nodes ut)"
    using init_communicators [OF ok wf fresh] by blast
  have "node_name rt \<notin> node_name ` set (interior_nodes ut)"
    using parents_first_names [OF pf] by auto
  from split_nodes_other_keys [OF sp this]
  have "map_of (mpi_comm_tree self') (node_name rt) = Some rc" by simp
  then have "(node_name rt, rc) \<in> set (mpi_comm_tree self')"
    by (rule map_of_SomeD)
  then have rc: "rc \<in> set (map snd (mpi_comm_tree self'))"
    by force
  obtain w2 where
    fa: "free_all (map snd (mpi_comm_tree self')) w1 = (Inr (), w2)"
    and fc: "free_calls w2 = free_calls w1 @ map snd (mpi_comm_tree self')"
    using free_all_total [OF nofail] by blast
  have "close_impl base_close_impl self' w1 = (Inr (), self', w2)"
    using base fa by (simp add: close_impl_def)
  moreover have "frees_since w1 w2 = map snd (mpi_comm_tree self')"
    using fc by (simp add: frees_since_def)
  ultimately show ?thesis using rc by auto
qed


lemmas comm_defs = findRootNode_def contains_node_def all_nodes_def interior_stages_def
  interior_nodes_def Split_def

lemma example_run:
  "fst example_init = Inr ()
   \<and> mpi_comm_tree (fst (snd example_init)) = [(''R'', 0), (''A'', 100)]
   \<and> split_calls (snd (snd example_init)) = [(0, 0, 100), (0, -32766, 101)]
   \<and> failing_frees (snd (snd example_init)) = []
   \<and> free_calls (snd (snd example_init)) = []"
  by (simp add: example_init_def init_defs tree_defs example_defs comm_defs)

lemma example_tree_well_formed: "well_formed_tree example_tree"
  by (simp add: well_formed_tree_def all_nodes_def example_defs)


text \<open>
  Claim C10 on the same worker: teardown frees the communicators 0 and 100, the first
  of which is the root communicator it was handed.
\<close>

theorem close_impl_frees_communicators_witness:
  "example_init = (Inr (), fst (snd example_init), snd (snd example_init))
   \<and> well_formed_tree example_tree
   \<and> mpi_comm_tree (new_worker example_options) = []
   \<and> set (map snd (mpi_comm_tree (fst (snd example_init))))
         \<inter> set (failing_frees (snd (snd example_init))) = {}
   \<and> map snd (mpi_comm_tree (fst (snd example_init))) = [0, 100]
   \<and> (\<exists>w2. close_impl (Inr ()) (fst (snd example_init)) (snd (snd example_init))
                = (Inr (), fst (snd example_init), w2)
         \<and> frees_since (snd (snd example_init)) w2 = map snd (mpi_comm_tree (fst (snd example_init)))
         \<and> 0 \<in> set (frees_since (snd (snd example_init)) w2))"
proof -
  have ok: "init (Inl NotImplementedError) ''srv'' example_tree ''w'' (scenarios_init [''s1'', ''s2''])
              PyNone (Some example_mpi) (Some 0) (new_worker example_options) example_world
            = (Inr (), fst (snd example_init), snd (snd example_init))"
    using example_run by (simp add: example_init_def [symmetric] prod_eq_iff)
  have ok': "example_init = (Inr (), fst (snd example_init), snd (snd example_init))"
    using example_run by (simp add: prod_eq_iff)
  have fresh: "mpi_comm_tree (new_worker example_options) = []"
    by (simp add: new_worker_def)
  have nofail: "set (map snd (mpi_comm_tree (fst (snd example_init))))
                  \<inter> set (failing_frees (snd (snd example_init))) = {}"
    using example_run by simp
  have vals: "map snd (mpi_comm_tree (fst (snd example_init))) = [0, 100]"
    using example_run by simp
  show ?thesis
    by (intro conjI)
       (rule ok' example_tree_well_formed fresh nofail vals
             close_impl_frees_communicators [OF ok example_tree_well_formed fresh refl nofail])+
qed

end
